theory Spec2Isabelle
  imports Main "HOL-Library.Sublist"
begin

section \<open>Values of the Go runtime and of the libraries\<close>

text \<open>
  A \<^verbatim>\<open>time.Time\<close> is modelled by the instant it denotes: nanoseconds since the Unix
  epoch, unbounded. The location and the monotonic clock reading of the Go value are
  dropped: \<^verbatim>\<open>Before\<close> and \<^verbatim>\<open>Add\<close> only look at the instant. A
  \<^verbatim>\<open>time.Duration\<close> is a number of nanoseconds.
\<close>

type_synonym time = int
type_synonym duration = int

definition Nanosecond :: duration where
  "Nanosecond = 1"

definition Second :: duration where
  "Second = 1000000000 * Nanosecond"

definition Hour :: duration where
  "Hour = 3600 * Second"

definition time_Unix :: "int \<Rightarrow> int \<Rightarrow> time" where
  "time_Unix sec nsec = sec * Second + nsec"

definition time_Before :: "time \<Rightarrow> time \<Rightarrow> bool" where
  "time_Before t u = (t < u)"

definition time_Add :: "time \<Rightarrow> duration \<Rightarrow> time" where
  "time_Add t d = t + d"

text \<open>The zero \<^verbatim>\<open>time.Time\<close>: January 1, year 1, 00:00:00 UTC.\<close>

definition zero_Time :: time where
  "zero_Time = time_Unix (- 62135596800) 0"

text \<open>A Go \<^verbatim>\<open>error\<close> value, with the message \<^verbatim>\<open>Error()\<close> returns.\<close>

datatype error = Error (message: string)

text \<open>
  How a call ends: it returns, or \<^verbatim>\<open>log.Fatal\<close> prints a message and exits the
  process with status 1, or the runtime panics (a nil pointer is dereferenced).
\<close>

datatype 'a outcome = Return 'a | Fatal string | Panic

text \<open>
  A parsed crontab expression of \<^verbatim>\<open>cronexpr\<close>. The program only ever calls its
  \<^verbatim>\<open>Next\<close> method, so the expression is represented by that method.
\<close>

datatype Expression = Expression (Next: "time \<Rightarrow> time")

text \<open>\<^verbatim>\<open>filepath.Ext\<close> on slash-separated paths: the suffix beginning at the final
  dot in the final element of the path, empty if there is no dot. The loop scans the
  path from its end; \<open>acc\<close> holds the characters already passed.\<close>

fun Ext_loop :: "string \<Rightarrow> string \<Rightarrow> string" where
  "Ext_loop [] acc = []"
| "Ext_loop (c # cs) acc =
     (if c = CHR ''/'' then []
      else if c = CHR ''.'' then c # acc
      else Ext_loop cs (c # acc))"

definition filepath_Ext :: "string \<Rightarrow> string" where
  "filepath_Ext path = Ext_loop (rev path) []"

section \<open>Data model of the program\<close>

record metadata =
  Title :: string
  Description :: string
  Confidential :: bool
  Assignees :: "string list"
  Labels :: "string list"
  DueIn :: string
  Crontab :: string
  NextTime :: time

text \<open>\<^verbatim>\<open>new(metadata)\<close>: every field at its zero value.\<close>

definition new_metadata :: metadata where
  "new_metadata =
     \<lparr>Title = [], Description = [], Confidential = False, Assignees = [], Labels = [],
      DueIn = [], Crontab = [], NextTime = zero_Time\<rparr>"

text \<open>The package-level variables, with their initial values.\<close>

record globals =
  ciAPIV4URL :: string
  gitlabAPIToken :: string
  ciProjectID :: string
  ciProjectDir :: string
  ciJobName :: string
  issuesRelativePath :: string

definition initial_globals :: globals where
  "initial_globals =
     \<lparr>ciAPIV4URL = [], gitlabAPIToken = [], ciProjectID = [], ciProjectDir = [],
      ciJobName = [], issuesRelativePath = ''.gitlab/recurring_issue_templates/''\<rparr>"

subsection \<open>Types of the GitLab client library\<close>

datatype client = Client string string

record Project =
  project_ID :: int

text \<open>
  \<^verbatim>\<open>gitlab.CreateIssueOptions\<close>. Pointer fields are options (\<open>None\<close> is nil), slice
  fields are lists (\<open>[]\<close> is nil); a field the composite literal does not name is nil.
  The due date is a \<^verbatim>\<open>gitlab.ISOTime\<close>, a \<^verbatim>\<open>time.Time\<close> under another name.
\<close>

record CreateIssueOptions =
  opt_IID :: "int option"
  opt_Title :: "string option"
  opt_Description :: "string option"
  opt_Confidential :: "bool option"
  opt_AssigneeIDs :: "int list"
  opt_MilestoneID :: "int option"
  opt_Labels :: "string list"
  opt_CreatedAt :: "time option"
  opt_DueDate :: "time option"
  opt_MergeRequestToResolveDiscussionsOf :: "int option"
  opt_DiscussionToResolve :: "string option"
  opt_Weight :: "int option"

datatype BuildStateValue =
  Pending | Created | Running | Success | Failed | Canceled | Skipped | Manual

text \<open>
  Of \<^verbatim>\<open>gitlab.ListProjectPipelinesOptions\<close>, \<^verbatim>\<open>gitlab.PipelineInfo\<close> and
  \<^verbatim>\<open>gitlab.Job\<close>, the fields the program sets or reads, and the ones the claims speak
  of (the sort order, the statuses).
\<close>

record ListProjectPipelinesOptions =
  lpp_Scope :: "string option"
  lpp_Status :: "BuildStateValue option"
  lpp_Ref :: "string option"
  lpp_OrderBy :: "string option"
  lpp_Sort :: "string option"

record PipelineInfo =
  pipeline_ID :: int
  pipeline_Status :: string
  pipeline_UpdatedAt :: "time option"

record Job =
  job_Name :: string
  job_Status :: string
  job_FinishedAt :: "time option"

text \<open>Pipeline \<open>a\<close> was updated strictly later than pipeline \<open>b\<close>, both update times
  being known. The program never reads the update times; the order of the list it gets
  is stated with them.\<close>

definition updated_after :: "PipelineInfo \<Rightarrow> PipelineInfo \<Rightarrow> bool" where
  "updated_after a b =
     (case (pipeline_UpdatedAt a, pipeline_UpdatedAt b) of
        (Some ta, Some tb) \<Rightarrow> tb < ta
      | _ \<Rightarrow> False)"

section \<open>The world outside the program\<close>

text \<open>
  Everything the program asks of its environment and of its libraries is a field of the
  world: the process environment, the file system, the clock, the parsers of the
  libraries and the answers of the GitLab API.

  \<open>walk_calls root\<close> is the sequence of calls \<^verbatim>\<open>filepath.Walk\<close> makes to its walk
  function for \<open>root\<close>, each with the path and the error Walk passes (the file info is
  never used by the program). \<open>Now n\<close> is the \<open>n\<close>-th reading of the wall clock.
\<close>

record world =
  Getenv :: "string \<Rightarrow> string"
  path_Join :: "string \<Rightarrow> string \<Rightarrow> string"
  walk_calls :: "string \<Rightarrow> (string \<times> error option) list"
  ReadFile :: "string \<Rightarrow> error + string"
  frontmatter_Unmarshal :: "string \<Rightarrow> metadata \<Rightarrow> error + metadata"
  cronexpr_Parse :: "string \<Rightarrow> error + Expression"
  time_ParseDuration :: "string \<Rightarrow> error + duration"
  Now :: "nat \<Rightarrow> time"
  gitlab_NewClient :: "string \<Rightarrow> string \<Rightarrow> error + client"
  GetProject :: "client \<Rightarrow> string \<Rightarrow> error + Project"
  CreateIssue :: "client \<Rightarrow> int \<Rightarrow> CreateIssueOptions \<Rightarrow> error option"
  ListProjectPipelines ::
    "client \<Rightarrow> string \<Rightarrow> ListProjectPipelinesOptions \<Rightarrow> error + PipelineInfo list"
  ListPipelineJobs :: "client \<Rightarrow> string \<Rightarrow> int \<Rightarrow> error + Job list"

text \<open>
  What a run has done so far: the issue-creation requests submitted to the API (project
  id and options, in order), the files handed to \<^verbatim>\<open>ioutil.ReadFile\<close>, the lines
  logged, and how often the clock has been read.
\<close>

datatype log_entry =
    WasDue string time
  | IsDue string time
  | LastRun time
  | RunComplete

record state =
  requests :: "(int \<times> CreateIssueOptions) list"
  reads :: "string list"
  logs :: "log_entry list"
  clock :: nat

definition initial_state :: state where
  "initial_state = \<lparr>requests = [], reads = [], logs = [], clock = 0\<rparr>"

section \<open>The program\<close>

subsection \<open>parseMetadata\<close>

definition parseMetadata :: "world \<Rightarrow> string \<Rightarrow> error + metadata" where
  "parseMetadata w contents =
     (let data = new_metadata in
      case frontmatter_Unmarshal w contents data of
        Inl err \<Rightarrow> Inl err
      | Inr data' \<Rightarrow> Inr data')"

subsection \<open>createIssue\<close>

definition createIssue ::
  "world \<Rightarrow> globals \<Rightarrow> metadata \<Rightarrow> state \<Rightarrow> error option \<times> state" where
  "createIssue w g data s =
     (case gitlab_NewClient w (gitlabAPIToken g) (ciAPIV4URL g) of
        Inl err \<Rightarrow> (Some err, s)
      | Inr git \<Rightarrow>
     (case GetProject w git (ciProjectID g) of
        Inl err \<Rightarrow> (Some err, s)
      | Inr project \<Rightarrow>
     (let options =
            \<lparr>opt_IID = None,
             opt_Title = Some (Title data),
             opt_Description = Some (Description data),
             opt_Confidential = Some (Confidential data),
             opt_AssigneeIDs = [],
             opt_MilestoneID = None,
             opt_Labels = [],
             opt_CreatedAt = Some (NextTime data),
             opt_DueDate = None,
             opt_MergeRequestToResolveDiscussionsOf = None,
             opt_DiscussionToResolve = None,
             opt_Weight = None\<rparr>
      in
      (case (if DueIn data \<noteq> []
             then (case time_ParseDuration w (DueIn data) of
                     Inl err \<Rightarrow> Inl err
                   | Inr duration \<Rightarrow>
                       Inr (options\<lparr>opt_DueDate := Some (time_Add (NextTime data) duration)\<rparr>))
             else Inr options) of
         Inl err \<Rightarrow> (Some err, s)
       | Inr options' \<Rightarrow>
           (let s' = s\<lparr>requests := requests s @ [(project_ID project, options')]\<rparr> in
            case CreateIssue w git (project_ID project) options' of
              Some err \<Rightarrow> (Some err, s')
            | None \<Rightarrow> (None, s'))))))"

subsection \<open>getLastRunTime\<close>

text \<open>The inner loop over the jobs of one pipeline: \<open>None\<close> when the loop falls
  through, otherwise how the \<^verbatim>\<open>return *job.FinishedAt, nil\<close> ends.\<close>

fun jobs_loop :: "string \<Rightarrow> Job list \<Rightarrow> (time \<times> error option) outcome option" where
  "jobs_loop name [] = None"
| "jobs_loop name (job # jobs) =
     (if job_Name job = name
      then (case job_FinishedAt job of
              None \<Rightarrow> Some Panic
            | Some t \<Rightarrow> Some (Return (t, None)))
      else jobs_loop name jobs)"

text \<open>The outer loop over the pipelines.\<close>

fun pipelines_loop ::
  "world \<Rightarrow> globals \<Rightarrow> client \<Rightarrow> PipelineInfo list \<Rightarrow> (time \<times> error option) outcome" where
  "pipelines_loop w g git [] = Return (time_Unix 0 0, None)"
| "pipelines_loop w g git (pipelineInfo # pipelineInfos) =
     (case ListPipelineJobs w git (ciProjectID g) (pipeline_ID pipelineInfo) of
        Inl err \<Rightarrow> Return (time_Unix 0 0, Some err)
      | Inr jobs \<Rightarrow>
          (case jobs_loop (ciJobName g) jobs of
             Some r \<Rightarrow> r
           | None \<Rightarrow> pipelines_loop w g git pipelineInfos))"

definition pipelines_options :: ListProjectPipelinesOptions where
  "pipelines_options =
     \<lparr>lpp_Scope = Some ''finished'', lpp_Status = Some Success, lpp_Ref = None,
      lpp_OrderBy = Some ''updated_at'', lpp_Sort = None\<rparr>"

definition getLastRunTime :: "world \<Rightarrow> globals \<Rightarrow> (time \<times> error option) outcome" where
  "getLastRunTime w g =
     (case gitlab_NewClient w (gitlabAPIToken g) (ciAPIV4URL g) of
        Inl err \<Rightarrow> Return (time_Unix 0 0, Some err)
      | Inr git \<Rightarrow>
     (case ListProjectPipelines w git (ciProjectID g) pipelines_options of
        Inl err \<Rightarrow> Return (time_Unix 0 0, Some err)
      | Inr pipelineInfos \<Rightarrow> pipelines_loop w g git pipelineInfos))"

subsection \<open>processIssueFile\<close>

definition processIssueFile ::
  "world \<Rightarrow> globals \<Rightarrow> time \<Rightarrow> string \<Rightarrow> error option \<Rightarrow> state \<Rightarrow>
     error option outcome \<times> state" where
  "processIssueFile w g lastTime path err s =
     (case err of
        Some e \<Rightarrow> (Fatal (message e), s)
      | None \<Rightarrow>
     (if filepath_Ext path \<noteq> ''.md'' then (Return None, s)
      else
     (let s1 = s\<lparr>reads := reads s @ [path]\<rparr> in
      case ReadFile w path of
        Inl e \<Rightarrow> (Return (Some e), s1)
      | Inr contents \<Rightarrow>
     (case parseMetadata w contents of
        Inl e \<Rightarrow> (Return (Some e), s1)
      | Inr data0 \<Rightarrow>
     (case cronexpr_Parse w (Crontab data0) of
        Inl e \<Rightarrow> (Return (Some e), s1)
      | Inr cronExpression \<Rightarrow>
     (let data = data0\<lparr>NextTime := Next cronExpression lastTime\<rparr>;
          now = Now w (clock s1);
          s2 = s1\<lparr>clock := clock s1 + 1\<rparr>
      in
      if time_Before (NextTime data) now
      then (case createIssue w g data (s2\<lparr>logs := logs s2 @ [WasDue path (NextTime data)]\<rparr>) of
              (Some e, s3) \<Rightarrow> (Return (Some e), s3)
            | (None, s3) \<Rightarrow> (Return None, s3))
      else (Return None, s2\<lparr>logs := logs s2 @ [IsDue path (NextTime data)]\<rparr>)))))))"

subsection \<open>filepath.Walk and main\<close>

text \<open>
  \<^verbatim>\<open>filepath.Walk\<close> calls the walk function on each entry in turn and stops at the
  first call that returns an error, which it returns. (The one error it treats
  otherwise, \<^verbatim>\<open>filepath.SkipDir\<close>, is a value none of the calls of the program's walk
  function can return.) A call that ends the process ends the walk.
\<close>

fun Walk_loop ::
  "(string \<Rightarrow> error option \<Rightarrow> state \<Rightarrow> error option outcome \<times> state) \<Rightarrow>
     (string \<times> error option) list \<Rightarrow> state \<Rightarrow> error option outcome \<times> state" where
  "Walk_loop walkFn [] s = (Return None, s)"
| "Walk_loop walkFn ((path, err) # rest) s =
     (case walkFn path err s of
        (Return None, s') \<Rightarrow> Walk_loop walkFn rest s'
      | (r, s') \<Rightarrow> (r, s'))"

definition filepath_Walk ::
  "world \<Rightarrow> string \<Rightarrow> (string \<Rightarrow> error option \<Rightarrow> state \<Rightarrow> error option outcome \<times> state) \<Rightarrow>
     state \<Rightarrow> error option outcome \<times> state" where
  "filepath_Walk w root walkFn s = Walk_loop walkFn (walk_calls w root) s"

definition main :: "world \<Rightarrow> state \<Rightarrow> unit outcome \<times> state" where
  "main w s =
     (let g1 = initial_globals\<lparr>gitlabAPIToken := Getenv w ''GITLAB_API_TOKEN''\<rparr> in
      if gitlabAPIToken g1 = []
      then (Fatal ''Environment variable 'GITLAB_API_TOKEN' not found. Ensure this is set under the project CI/CD settings.'', s)
      else
     (let g2 = g1\<lparr>ciAPIV4URL := Getenv w ''CI_API_V4_URL''\<rparr> in
      if ciAPIV4URL g2 = []
      then (Fatal ''Environment variable 'CI_API_V4_URL' not found. This tool must be ran as part of a GitLab pipeline.'', s)
      else
     (let g3 = g2\<lparr>ciProjectID := Getenv w ''CI_PROJECT_ID''\<rparr> in
      if gitlabAPIToken g3 = []
      then (Fatal ''Environment variable 'CI_PROJECT_ID' not found. This tool must be ran as part of a GitLab pipeline.'', s)
      else
     (let g4 = g3\<lparr>ciProjectDir := Getenv w ''CI_PROJECT_DIR''\<rparr> in
      if gitlabAPIToken g4 = []
      then (Fatal ''Environment variable 'CI_PROJECT_DIR' not found. This tool must be ran as part of a GitLab pipeline.'', s)
      else
     (let g5 = g4\<lparr>ciJobName := Getenv w ''CI_JOB_NAME''\<rparr> in
      if gitlabAPIToken g5 = []
      then (Fatal ''Environment variable 'CI_JOB_NAME' not found. This tool must be ran as part of a GitLab pipeline.'', s)
      else
     (let g = g5\<lparr>issuesRelativePath := path_Join w (ciProjectDir g5) (issuesRelativePath g5)\<rparr> in
      case getLastRunTime w g of
        Panic \<Rightarrow> (Panic, s)
      | Fatal m \<Rightarrow> (Fatal m, s)
      | Return (lastRunTime, Some err) \<Rightarrow> (Fatal (message err), s)
      | Return (lastRunTime, None) \<Rightarrow>
     (let s1 = s\<lparr>logs := logs s @ [LastRun lastRunTime]\<rparr> in
      case filepath_Walk w (issuesRelativePath g) (processIssueFile w g lastRunTime) s1 of
        (Panic, s2) \<Rightarrow> (Panic, s2)
      | (Fatal m, s2) \<Rightarrow> (Fatal m, s2)
      | (Return (Some err), s2) \<Rightarrow> (Fatal (message err), s2)
      | (Return None, s2) \<Rightarrow>
          (Return (), s2\<lparr>logs := logs s2 @ [RunComplete]\<rparr>))))))))"

text \<open>The package-level variables as \<open>main\<close> leaves them when none of its checks
  fails.\<close>

definition loaded_globals :: "world \<Rightarrow> globals" where
  "loaded_globals w =
     \<lparr>ciAPIV4URL = Getenv w ''CI_API_V4_URL'',
      gitlabAPIToken = Getenv w ''GITLAB_API_TOKEN'',
      ciProjectID = Getenv w ''CI_PROJECT_ID'',
      ciProjectDir = Getenv w ''CI_PROJECT_DIR'',
      ciJobName = Getenv w ''CI_JOB_NAME'',
      issuesRelativePath =
        path_Join w (Getenv w ''CI_PROJECT_DIR'') ''.gitlab/recurring_issue_templates/''\<rparr>"

section \<open>The recurrence \<open>@daily\<close>\<close>

text \<open>
  Modelled from the spec: the expression that \<^verbatim>\<open>cronexpr.Parse\<close> returns for the alias
  \<^verbatim>\<open>@daily\<close>, with its \<^verbatim>\<open>Next\<close> method. The library \<^verbatim>\<open>github.com/gorhill/cronexpr\<close>
  is not part of the sources. The spec maps the alias to its canonical field pattern
  (midnight of every day) and has \<^verbatim>\<open>Next\<close> compute the first occurrence strictly after
  the reference time; days are those of UTC, 24 hours each.
\<close>

definition cronexpr_daily :: Expression where
  "cronexpr_daily = Expression (\<lambda>t. (t div (24 * Hour) + 1) * (24 * Hour))"

section \<open>An example world\<close>

text \<open>
  A project with three finished pipelines and three templates, used to run the program
  on concrete inputs.
\<close>

definition example_env :: "string \<Rightarrow> string" where
  "example_env name =
     (if name = ''GITLAB_API_TOKEN'' then ''secret''
      else if name = ''CI_API_V4_URL'' then ''https://gitlab.example.com/api/v4''
      else if name = ''CI_PROJECT_ID'' then ''42''
      else if name = ''CI_PROJECT_DIR'' then ''/builds/p''
      else if name = ''CI_JOB_NAME'' then ''recurring issues''
      else [])"

definition example_root :: string where
  "example_root = ''/builds/p/.gitlab/recurring_issue_templates''"

definition example_Unmarshal :: "string \<Rightarrow> metadata \<Rightarrow> error + metadata" where
  "example_Unmarshal contents data =
     (if contents = ''daily''
      then Inr (data\<lparr>Title := ''Daily reminder'', Description := ''Action 1'',
                     Assignees := [''alice''], Labels := [''chore''],
                     DueIn := ''24h'', Crontab := ''@daily''\<rparr>)
      else if contents = ''plain''
      then Inr (data\<lparr>Title := ''Plain'', Confidential := True, Crontab := ''@daily''\<rparr>)
      else if contents = ''broken''
      then Inr (data\<lparr>Title := ''Broken'', Crontab := ''not-a-cron''\<rparr>)
      else Inl (Error ''frontmatter: no front matter''))"

definition example_jobs :: "int \<Rightarrow> Job list" where
  "example_jobs pipeline =
     (if pipeline = 7
      then [\<lparr>job_Name = ''build'', job_Status = ''success'',
              job_FinishedAt = Some (time_Unix 100000 0)\<rparr>,
            \<lparr>job_Name = ''deploy'', job_Status = ''manual'', job_FinishedAt = None\<rparr>]
      else if pipeline = 5
      then [\<lparr>job_Name = ''build'', job_Status = ''success'',
              job_FinishedAt = Some (time_Unix 89000 0)\<rparr>,
            \<lparr>job_Name = ''recurring issues'', job_Status = ''failed'',
              job_FinishedAt = Some (time_Unix 90000 0)\<rparr>,
            \<lparr>job_Name = ''recurring issues'', job_Status = ''canceled'',
              job_FinishedAt = None\<rparr>]
      else [\<lparr>job_Name = ''recurring issues'', job_Status = ''success'',
              job_FinishedAt = Some (time_Unix 3600 0)\<rparr>])"

definition example_pipelines :: "PipelineInfo list" where
  "example_pipelines =
     [\<lparr>pipeline_ID = 7, pipeline_Status = ''success'',
       pipeline_UpdatedAt = Some (time_Unix 100100 0)\<rparr>,
      \<lparr>pipeline_ID = 5, pipeline_Status = ''success'',
       pipeline_UpdatedAt = Some (time_Unix 90100 0)\<rparr>,
      \<lparr>pipeline_ID = 3, pipeline_Status = ''success'',
       pipeline_UpdatedAt = Some (time_Unix 3700 0)\<rparr>]"

definition example_world :: world where
  "example_world =
     \<lparr>Getenv = example_env,
      path_Join = (\<lambda>a b. if b = ''.gitlab/recurring_issue_templates/''
                           then a @ ''/.gitlab/recurring_issue_templates'' else a @ ''/'' @ b),
      walk_calls = (\<lambda>root. [(root, None), (root @ ''/a.md'', None), (root @ ''/b.txt'', None),
                             (root @ ''/d.md'', None)]),
      ReadFile = (\<lambda>path. if path = example_root @ ''/a.md'' then Inr ''daily''
                          else if path = example_root @ ''/c.md'' then Inr ''broken''
                          else if path = example_root @ ''/d.md'' then Inr ''plain''
                          else Inl (Error ''open: no such file or directory'')),
      frontmatter_Unmarshal = example_Unmarshal,
      cronexpr_Parse = (\<lambda>cronLine. if cronLine = ''@daily'' then Inr cronexpr_daily
                                    else Inl (Error ''syntax error in crontab'')),
      time_ParseDuration = (\<lambda>str. if str = ''24h'' then Inr (24 * Hour)
                                   else Inl (Error ''time: invalid duration'')),
      Now = (\<lambda>n. time_Unix 172801 0),
      gitlab_NewClient = (\<lambda>token url. Inr (Client token url)),
      GetProject = (\<lambda>git pid. if pid = ''42'' then Inr \<lparr>project_ID = 42\<rparr>
                               else Inl (Error ''404 Project Not Found'')),
      CreateIssue = (\<lambda>git pid options. None),
      ListProjectPipelines = (\<lambda>git pid options.
         if pid = ''42'' then Inr example_pipelines
         else Inl (Error ''404 Project Not Found'')),
      ListPipelineJobs = (\<lambda>git pid pipeline. Inr (example_jobs pipeline))\<rparr>"

text \<open>The example world at the very instant the daily template falls due, the example
  world with a template whose crontab is malformed between the two others, and the
  example world started without \<^verbatim>\<open>CI_JOB_NAME\<close>.\<close>

definition example_world_on_time :: world where
  "example_world_on_time = example_world\<lparr>Now := \<lambda>n. time_Unix 172800 0\<rparr>"

definition example_world_broken :: world where
  "example_world_broken =
     example_world\<lparr>walk_calls := \<lambda>root.
        [(root, None), (root @ ''/a.md'', None), (root @ ''/b.txt'', None),
         (root @ ''/c.md'', None), (root @ ''/d.md'', None)]\<rparr>"

definition example_world_no_job_name :: world where
  "example_world_no_job_name = example_world\<lparr>Getenv := example_env(''CI_JOB_NAME'' := [])\<rparr>"

text \<open>The package-level variables after \<open>main\<close> has read the example environment.\<close>

definition example_globals :: globals where
  "example_globals =
     \<lparr>ciAPIV4URL = ''https://gitlab.example.com/api/v4'', gitlabAPIToken = ''secret'',
      ciProjectID = ''42'', ciProjectDir = ''/builds/p'', ciJobName = ''recurring issues'',
      issuesRelativePath = example_root\<rparr>"

section \<open>Facts about the loops and the library models\<close>

subsection \<open>The extension of a path\<close>

lemma Ext_loop_length: "Ext_loop r acc = [] \<or> length acc < length (Ext_loop r acc)"
proof (induction r arbitrary: acc)
  case Nil
  show ?case by simp
next
  case (Cons c cs)
  from Cons.IH [of "c # acc"] show ?case by auto
qed

lemma Ext_loop_md_rev:
  assumes "Ext_loop r [] = ''.md''"
  shows "\<exists>r'. r = ''dm.'' @ r'"
proof (cases r)
  case Nil
  with assms show ?thesis by simp
next
  case r1: (Cons c1 r1)
  show ?thesis
  proof (cases r1)
    case Nil
    with assms r1 show ?thesis by (simp split: if_splits)
  next
    case r2: (Cons c2 r2)
    show ?thesis
    proof (cases r2)
      case Nil
      with assms r1 r2 show ?thesis by (simp split: if_splits)
    next
      case r3: (Cons c3 r3)
      from Ext_loop_length [of r3 "[c3, c2, c1]"]
      have "Ext_loop r3 [c3, c2, c1] \<noteq> ''.md''" by auto
      with assms r1 r2 r3 show ?thesis by (simp split: if_splits)
    qed
  qed
qed

text \<open>The extension is \<^verbatim>\<open>.md\<close> exactly when the path ends with \<^verbatim>\<open>.md\<close>.\<close>

lemma Ext_md_iff: "filepath_Ext path = ''.md'' \<longleftrightarrow> suffix ''.md'' path"
proof
  assume "filepath_Ext path = ''.md''"
  then obtain r' where "rev path = ''dm.'' @ r'"
    unfolding filepath_Ext_def using Ext_loop_md_rev by blast
  then have "rev (rev path) = rev (''dm.'' @ r')" by simp
  then have "path = rev r' @ ''.md''" by simp
  then show "suffix ''.md'' path" by (simp add: suffix_def)
next
  assume "suffix ''.md'' path"
  then obtain p where "path = p @ ''.md''" by (auto simp: suffix_def)
  then show "filepath_Ext path = ''.md''" by (simp add: filepath_Ext_def)
qed

subsection \<open>The next multiple of a period\<close>

lemma next_multiple_bounds:
  fixes t D :: int
  assumes "0 < D"
  shows "t < (t div D + 1) * D" and "(t div D + 1) * D \<le> t + D"
proof -
  have e: "t = t div D * D + t mod D" by simp
  have l: "0 \<le> t mod D" and u: "t mod D < D" using assms by simp_all
  have m: "(t div D + 1) * D = t div D * D + D" by (simp add: algebra_simps)
  from e u m show "t < (t div D + 1) * D" by linarith
  from e l m show "(t div D + 1) * D \<le> t + D" by linarith
qed

subsection \<open>The loops of getLastRunTime\<close>

lemma jobs_loop_no_match:
  "\<forall>j\<in>set js. job_Name j \<noteq> name \<Longrightarrow> jobs_loop name js = None"
  by (induction js) auto

lemma jobs_loop_first_match:
  "\<forall>j'\<in>set js1. job_Name j' \<noteq> name \<Longrightarrow> job_Name j = name \<Longrightarrow>
   jobs_loop name (js1 @ j # js2) =
     Some (case job_FinishedAt j of None \<Rightarrow> Panic | Some t \<Rightarrow> Return (t, None))"
  by (induction js1) (auto split: option.splits)

lemma jobs_loop_not_Panic:
  "\<forall>j\<in>set js. job_Name j = name \<longrightarrow> job_FinishedAt j \<noteq> None \<Longrightarrow>
   jobs_loop name js \<noteq> Some Panic"
  by (induction js) (auto split: option.splits)

lemma jobs_loop_None_D:
  "jobs_loop name js = None \<Longrightarrow> \<forall>j\<in>set js. job_Name j \<noteq> name"
  by (induction js) (auto split: if_splits option.splits)

lemma jobs_loop_Panic_D:
  "jobs_loop name js = Some Panic \<Longrightarrow>
   \<exists>js1 job js2. js = js1 @ job # js2 \<and> (\<forall>j\<in>set js1. job_Name j \<noteq> name) \<and>
     job_Name job = name \<and> job_FinishedAt job = None"
proof (induction js)
  case Nil
  then show ?case by simp
next
  case (Cons j js)
  show ?case
  proof (cases "job_Name j = name")
    case True
    with Cons.prems have "job_FinishedAt j = None" by (simp split: option.splits)
    with True have "j # js = [] @ j # js \<and> (\<forall>j'\<in>set []. job_Name j' \<noteq> name) \<and>
        job_Name j = name \<and> job_FinishedAt j = None" by simp
    then show ?thesis by blast
  next
    case False
    with Cons.prems have "jobs_loop name js = Some Panic" by simp
    then obtain js1 job js2 where h: "js = js1 @ job # js2" "\<forall>j\<in>set js1. job_Name j \<noteq> name"
      "job_Name job = name" "job_FinishedAt job = None"
      using Cons.IH by blast
    with False have "j # js = (j # js1) @ job # js2 \<and> (\<forall>j'\<in>set (j # js1). job_Name j' \<noteq> name) \<and>
        job_Name job = name \<and> job_FinishedAt job = None" by simp
    then show ?thesis by blast
  qed
qed

lemma pipelines_loop_skip:
  "\<forall>q\<in>set pre. \<exists>js. ListPipelineJobs w git (ciProjectID g) (pipeline_ID q) = Inr js \<and>
       (\<forall>j\<in>set js. job_Name j \<noteq> ciJobName g) \<Longrightarrow>
   pipelines_loop w g git (pre @ rest) = pipelines_loop w g git rest"
proof (induction pre)
  case Nil
  show ?case by simp
next
  case (Cons q pre)
  then obtain js where js: "ListPipelineJobs w git (ciProjectID g) (pipeline_ID q) = Inr js"
    "\<forall>j\<in>set js. job_Name j \<noteq> ciJobName g" by auto
  from Cons have "pipelines_loop w g git (pre @ rest) = pipelines_loop w g git rest" by simp
  with js show ?case by (simp add: jobs_loop_no_match)
qed

text \<open>The loops stop at the first job of the wanted name, in the first pipeline that has
  one, and dereference its \<^verbatim>\<open>FinishedAt\<close>.\<close>

lemma pipelines_loop_first_match:
  assumes "\<forall>q\<in>set pre. \<exists>js. ListPipelineJobs w git (ciProjectID g) (pipeline_ID q) = Inr js \<and>
       (\<forall>j\<in>set js. job_Name j \<noteq> ciJobName g)"
    and "ListPipelineJobs w git (ciProjectID g) (pipeline_ID p) = Inr (js1 @ job # js2)"
    and "\<forall>j\<in>set js1. job_Name j \<noteq> ciJobName g"
    and "job_Name job = ciJobName g"
  shows "pipelines_loop w g git (pre @ p # post) =
     (case job_FinishedAt job of None \<Rightarrow> Panic | Some t \<Rightarrow> Return (t, None))"
  using assms by (simp add: pipelines_loop_skip jobs_loop_first_match)

lemma pipelines_loop_not_Panic:
  "\<forall>q\<in>set ps. \<forall>js. ListPipelineJobs w git (ciProjectID g) (pipeline_ID q) = Inr js \<longrightarrow>
       (\<forall>j\<in>set js. job_Name j = ciJobName g \<longrightarrow> job_FinishedAt j \<noteq> None) \<Longrightarrow>
   pipelines_loop w g git ps \<noteq> Panic"
proof (induction ps)
  case Nil
  show ?case by simp
next
  case (Cons q ps)
  show ?case
  proof (cases "ListPipelineJobs w git (ciProjectID g) (pipeline_ID q)")
    case (Inl e)
    then show ?thesis by simp
  next
    case (Inr js)
    with Cons.prems have "\<forall>j\<in>set js. job_Name j = ciJobName g \<longrightarrow> job_FinishedAt j \<noteq> None"
      by simp
    then have "jobs_loop (ciJobName g) js \<noteq> Some Panic" by (rule jobs_loop_not_Panic)
    moreover from Cons have "pipelines_loop w g git ps \<noteq> Panic" by simp
    ultimately show ?thesis using Inr by (auto split: option.splits)
  qed
qed

text \<open>A panic can only come from a first job of the wanted name that has no finish
  time.\<close>

lemma pipelines_loop_Panic_D:
  "pipelines_loop w g git ps = Panic \<Longrightarrow>
   \<exists>pre p post js1 job js2. ps = pre @ p # post \<and>
     (\<forall>q\<in>set pre. \<exists>js. ListPipelineJobs w git (ciProjectID g) (pipeline_ID q) = Inr js \<and>
         (\<forall>j\<in>set js. job_Name j \<noteq> ciJobName g)) \<and>
     ListPipelineJobs w git (ciProjectID g) (pipeline_ID p) = Inr (js1 @ job # js2) \<and>
     (\<forall>j\<in>set js1. job_Name j \<noteq> ciJobName g) \<and>
     job_Name job = ciJobName g \<and> job_FinishedAt job = None"
proof (induction ps)
  case Nil
  then show ?case by simp
next
  case (Cons q ps)
  show ?case
  proof (cases "ListPipelineJobs w git (ciProjectID g) (pipeline_ID q)")
    case (Inl e)
    with Cons.prems show ?thesis by simp
  next
    case (Inr js)
    show ?thesis
    proof (cases "jobs_loop (ciJobName g) js")
      case None
      then have nm: "\<forall>j\<in>set js. job_Name j \<noteq> ciJobName g" by (rule jobs_loop_None_D)
      from Cons.prems Inr None have "pipelines_loop w g git ps = Panic" by simp
      then obtain pre p post js1 job js2 where h: "ps = pre @ p # post"
        "\<forall>q\<in>set pre. \<exists>js. ListPipelineJobs w git (ciProjectID g) (pipeline_ID q) = Inr js \<and>
           (\<forall>j\<in>set js. job_Name j \<noteq> ciJobName g)"
        "ListPipelineJobs w git (ciProjectID g) (pipeline_ID p) = Inr (js1 @ job # js2)"
        "\<forall>j\<in>set js1. job_Name j \<noteq> ciJobName g"
        "job_Name job = ciJobName g" "job_FinishedAt job = None"
        using Cons.IH by blast
      from h(1) have "q # ps = (q # pre) @ p # post" by simp
      moreover from h(2) Inr nm
      have "\<forall>q'\<in>set (q # pre). \<exists>js. ListPipelineJobs w git (ciProjectID g) (pipeline_ID q') = Inr js \<and>
           (\<forall>j\<in>set js. job_Name j \<noteq> ciJobName g)" by simp
      ultimately show ?thesis using h(3-6) by blast
    next
      case (Some r)
      with Cons.prems Inr have "jobs_loop (ciJobName g) js = Some Panic" by simp
      then obtain js1 job js2 where h: "js = js1 @ job # js2"
        "\<forall>j\<in>set js1. job_Name j \<noteq> ciJobName g"
        "job_Name job = ciJobName g" "job_FinishedAt job = None"
        using jobs_loop_Panic_D by blast
      have "q # ps = [] @ q # ps" by simp
      moreover have "\<forall>q'\<in>set []. \<exists>js. ListPipelineJobs w git (ciProjectID g) (pipeline_ID q') = Inr js \<and>
           (\<forall>j\<in>set js. job_Name j \<noteq> ciJobName g)" by simp
      moreover from Inr h(1)
      have "ListPipelineJobs w git (ciProjectID g) (pipeline_ID q) = Inr (js1 @ job # js2)" by simp
      ultimately show ?thesis using h(2-4) by blast
    qed
  qed
qed

text \<open>In a list in descending order of update time, nothing after an element was
  updated later than it.\<close>

lemma sorted_wrt_first_of_rest:
  "sorted_wrt R (pre @ p # post) \<Longrightarrow> \<forall>q\<in>set post. R p q"
  by (simp add: sorted_wrt_append)

lemma not_updated_after_self: "\<not> updated_after p p"
  by (simp add: updated_after_def split: option.splits)

subsection \<open>createIssue, the walk and main\<close>

lemma createIssue_requests:
  assumes "gitlab_NewClient w (gitlabAPIToken g) (ciAPIV4URL g) = Inr git"
    and "GetProject w git (ciProjectID g) = Inr project"
  shows "DueIn data = [] \<Longrightarrow>
           \<exists>options. requests (snd (createIssue w g data s)) =
               requests s @ [(project_ID project, options)] \<and>
             opt_CreatedAt options = Some (NextTime data) \<and> opt_DueDate options = None"
    and "DueIn data \<noteq> [] \<Longrightarrow> time_ParseDuration w (DueIn data) = Inr d \<Longrightarrow>
           \<exists>options. requests (snd (createIssue w g data s)) =
               requests s @ [(project_ID project, options)] \<and>
             opt_CreatedAt options = Some (NextTime data) \<and>
             opt_DueDate options = Some (time_Add (NextTime data) d)"
  using assms by (simp_all add: createIssue_def Let_def split: option.splits)

lemma Walk_loop_append:
  "Walk_loop walkFn pre s = (Return None, s1) \<Longrightarrow>
   Walk_loop walkFn (pre @ rest) s = Walk_loop walkFn rest s1"
proof (induction pre arbitrary: s)
  case Nil
  then show ?case by simp
next
  case (Cons entry pre)
  obtain path err where entry: "entry = (path, err)" by (cases entry)
  obtain r s' where step: "walkFn path err s = (r, s')" by (cases "walkFn path err s")
  show ?case
  proof (cases "r = Return None")
    case True
    with Cons.prems entry step have "Walk_loop walkFn pre s' = (Return None, s1)" by simp
    then have "Walk_loop walkFn (pre @ rest) s' = Walk_loop walkFn rest s1" by (rule Cons.IH)
    with True entry step show ?thesis by simp
  next
    case False
    with Cons.prems entry step have False
      by (auto split: outcome.splits option.splits)
    then show ?thesis ..
  qed
qed

text \<open>The first two checks of \<open>main\<close> end the process before anything else is done.\<close>

lemma main_without_token:
  "Getenv w ''GITLAB_API_TOKEN'' = [] \<Longrightarrow>
   main w s = (Fatal ''Environment variable 'GITLAB_API_TOKEN' not found. Ensure this is set under the project CI/CD settings.'', s)"
  by (simp add: main_def)

lemma main_without_url:
  "Getenv w ''GITLAB_API_TOKEN'' \<noteq> [] \<Longrightarrow> Getenv w ''CI_API_V4_URL'' = [] \<Longrightarrow>
   main w s = (Fatal ''Environment variable 'CI_API_V4_URL' not found. This tool must be ran as part of a GitLab pipeline.'', s)"
  by (simp add: main_def)

text \<open>
  Once \<^verbatim>\<open>GITLAB_API_TOKEN\<close> and \<^verbatim>\<open>CI_API_V4_URL\<close> are set, \<open>main\<close> goes on to
  \<open>getLastRunTime\<close> and the walk, whatever the other three settings are: their three
  checks test \<open>gitlabAPIToken\<close> again.
\<close>

lemma main_loaded:
  assumes "Getenv w ''GITLAB_API_TOKEN'' \<noteq> []"
    and "Getenv w ''CI_API_V4_URL'' \<noteq> []"
  shows "main w s =
     (case getLastRunTime w (loaded_globals w) of
        Panic \<Rightarrow> (Panic, s)
      | Fatal m \<Rightarrow> (Fatal m, s)
      | Return (lastRunTime, Some err) \<Rightarrow> (Fatal (message err), s)
      | Return (lastRunTime, None) \<Rightarrow>
          (case Walk_loop (processIssueFile w (loaded_globals w) lastRunTime)
                  (walk_calls w (issuesRelativePath (loaded_globals w)))
                  (s\<lparr>logs := logs s @ [LastRun lastRunTime]\<rparr>) of
             (Panic, s2) \<Rightarrow> (Panic, s2)
           | (Fatal m, s2) \<Rightarrow> (Fatal m, s2)
           | (Return (Some err), s2) \<Rightarrow> (Fatal (message err), s2)
           | (Return None, s2) \<Rightarrow> (Return (), s2\<lparr>logs := logs s2 @ [RunComplete]\<rparr>)))"
proof -
  have g: "initial_globals
      \<lparr>gitlabAPIToken := Getenv w ''GITLAB_API_TOKEN'', ciAPIV4URL := Getenv w ''CI_API_V4_URL'',
       ciProjectID := Getenv w ''CI_PROJECT_ID'', ciProjectDir := Getenv w ''CI_PROJECT_DIR'',
       ciJobName := Getenv w ''CI_JOB_NAME'',
       issuesRelativePath := path_Join w (Getenv w ''CI_PROJECT_DIR'')
          ''.gitlab/recurring_issue_templates/''\<rparr> = loaded_globals w"
    by (simp add: initial_globals_def loaded_globals_def)
  have i: "issuesRelativePath initial_globals = ''.gitlab/recurring_issue_templates/''"
    by (simp add: initial_globals_def)
  from assms show ?thesis
    by (simp add: main_def Let_def filepath_Walk_def i g
        split: outcome.splits prod.splits option.splits)
qed

section \<open>The example world, evaluated\<close>

lemma example_world_simps [simp]:
  "Getenv example_world = example_env"
  "walk_calls example_world =
     (\<lambda>root. [(root, None), (root @ ''/a.md'', None), (root @ ''/b.txt'', None),
              (root @ ''/d.md'', None)])"
  "ReadFile example_world =
     (\<lambda>path. if path = example_root @ ''/a.md'' then Inr ''daily''
             else if path = example_root @ ''/c.md'' then Inr ''broken''
             else if path = example_root @ ''/d.md'' then Inr ''plain''
             else Inl (Error ''open: no such file or directory''))"
  "frontmatter_Unmarshal example_world = example_Unmarshal"
  "cronexpr_Parse example_world =
     (\<lambda>cronLine. if cronLine = ''@daily'' then Inr cronexpr_daily
                 else Inl (Error ''syntax error in crontab''))"
  "time_ParseDuration example_world =
     (\<lambda>str. if str = ''24h'' then Inr (24 * Hour) else Inl (Error ''time: invalid duration''))"
  "Now example_world = (\<lambda>n. time_Unix 172801 0)"
  "gitlab_NewClient example_world = (\<lambda>token url. Inr (Client token url))"
  "GetProject example_world =
     (\<lambda>git pid. if pid = ''42'' then Inr \<lparr>project_ID = 42\<rparr>
                else Inl (Error ''404 Project Not Found''))"
  "CreateIssue example_world = (\<lambda>git pid options. None)"
  "ListProjectPipelines example_world =
     (\<lambda>git pid options. if pid = ''42'' then Inr example_pipelines
                        else Inl (Error ''404 Project Not Found''))"
  "ListPipelineJobs example_world = (\<lambda>git pid pipeline. Inr (example_jobs pipeline))"
  by (simp_all add: example_world_def)

lemma example_path_Join [simp]:
  "path_Join example_world ''/builds/p'' ''.gitlab/recurring_issue_templates/'' = example_root"
  by (simp add: example_world_def example_root_def)

lemma example_world_on_time_simps [simp]:
  "Now example_world_on_time = (\<lambda>n. time_Unix 172800 0)"
  "ReadFile example_world_on_time = ReadFile example_world"
  "frontmatter_Unmarshal example_world_on_time = example_Unmarshal"
  "cronexpr_Parse example_world_on_time = cronexpr_Parse example_world"
  "time_ParseDuration example_world_on_time = time_ParseDuration example_world"
  "gitlab_NewClient example_world_on_time = gitlab_NewClient example_world"
  "GetProject example_world_on_time = GetProject example_world"
  "CreateIssue example_world_on_time = CreateIssue example_world"
  by (simp_all add: example_world_on_time_def)

lemma example_world_broken_simps [simp]:
  "Getenv example_world_broken = example_env"
  "path_Join example_world_broken = path_Join example_world"
  "walk_calls example_world_broken =
     (\<lambda>root. [(root, None), (root @ ''/a.md'', None), (root @ ''/b.txt'', None),
              (root @ ''/c.md'', None), (root @ ''/d.md'', None)])"
  "ReadFile example_world_broken = ReadFile example_world"
  "frontmatter_Unmarshal example_world_broken = example_Unmarshal"
  "cronexpr_Parse example_world_broken = cronexpr_Parse example_world"
  "time_ParseDuration example_world_broken = time_ParseDuration example_world"
  "Now example_world_broken = Now example_world"
  "gitlab_NewClient example_world_broken = gitlab_NewClient example_world"
  "GetProject example_world_broken = GetProject example_world"
  "CreateIssue example_world_broken = CreateIssue example_world"
  "ListProjectPipelines example_world_broken = ListProjectPipelines example_world"
  "ListPipelineJobs example_world_broken = ListPipelineJobs example_world"
  by (simp_all add: example_world_broken_def)

lemma example_world_no_job_name_simps [simp]:
  "Getenv example_world_no_job_name = example_env(''CI_JOB_NAME'' := [])"
  "path_Join example_world_no_job_name = path_Join example_world"
  "walk_calls example_world_no_job_name = walk_calls example_world"
  "ReadFile example_world_no_job_name = ReadFile example_world"
  "frontmatter_Unmarshal example_world_no_job_name = example_Unmarshal"
  "cronexpr_Parse example_world_no_job_name = cronexpr_Parse example_world"
  "time_ParseDuration example_world_no_job_name = time_ParseDuration example_world"
  "Now example_world_no_job_name = Now example_world"
  "gitlab_NewClient example_world_no_job_name = gitlab_NewClient example_world"
  "GetProject example_world_no_job_name = GetProject example_world"
  "CreateIssue example_world_no_job_name = CreateIssue example_world"
  "ListProjectPipelines example_world_no_job_name = ListProjectPipelines example_world"
  "ListPipelineJobs example_world_no_job_name = ListPipelineJobs example_world"
  by (simp_all add: example_world_no_job_name_def)

lemma example_broken_globals: "loaded_globals example_world_broken = example_globals"
  by (simp add: loaded_globals_def example_globals_def example_env_def)

lemma example_client:
  "gitlab_NewClient example_world (gitlabAPIToken example_globals) (ciAPIV4URL example_globals) =
     Inr (Client ''secret'' ''https://gitlab.example.com/api/v4'')"
  "GetProject example_world (Client ''secret'' ''https://gitlab.example.com/api/v4'')
     (ciProjectID example_globals) = Inr \<lparr>project_ID = 42\<rparr>"
  "ListProjectPipelines example_world (Client ''secret'' ''https://gitlab.example.com/api/v4'')
     (ciProjectID example_globals) pipelines_options = Inr example_pipelines"
  by (simp_all add: example_globals_def)

lemma example_a_md:
  "suffix ''.md'' (example_root @ ''/a.md'')"
  "parseMetadata example_world ''daily'' =
     Inr (new_metadata\<lparr>Title := ''Daily reminder'', Description := ''Action 1'',
                     Assignees := [''alice''], Labels := [''chore''],
                     DueIn := ''24h'', Crontab := ''@daily''\<rparr>)"
  "parseMetadata example_world_on_time ''daily'' =
     Inr (new_metadata\<lparr>Title := ''Daily reminder'', Description := ''Action 1'',
                     Assignees := [''alice''], Labels := [''chore''],
                     DueIn := ''24h'', Crontab := ''@daily''\<rparr>)"
  "Next cronexpr_daily (time_Unix 90000 0) = time_Unix 172800 0"
  by (simp_all add: suffix_def parseMetadata_def example_Unmarshal_def cronexpr_daily_def
      time_Unix_def Hour_def Second_def Nanosecond_def)

lemma example_d_md:
  "suffix ''.md'' (example_root @ ''/d.md'')"
  "ReadFile example_world (example_root @ ''/d.md'') = Inr ''plain''"
  "parseMetadata example_world ''plain'' =
     Inr (new_metadata\<lparr>Title := ''Plain'', Confidential := True, Crontab := ''@daily''\<rparr>)"
  by (simp_all add: suffix_def parseMetadata_def example_Unmarshal_def example_root_def)

lemma example_broken_getLastRunTime:
  "getLastRunTime example_world_broken example_globals = Return (time_Unix 90000 0, None)"
  by (simp add: getLastRunTime_def example_pipelines_def example_jobs_def example_globals_def)

lemma example_broken_a_md:
  "processIssueFile example_world_broken example_globals (time_Unix 90000 0)
     (example_root @ ''/a.md'') None
     \<lparr>requests = [], reads = [], logs = [LastRun (time_Unix 90000 0)], clock = 0\<rparr> =
   (Return None,
    \<lparr>requests =
       [(42, \<lparr>opt_IID = None, opt_Title = Some ''Daily reminder'',
              opt_Description = Some ''Action 1'', opt_Confidential = Some False,
              opt_AssigneeIDs = [], opt_MilestoneID = None, opt_Labels = [],
              opt_CreatedAt = Some (time_Unix 172800 0),
              opt_DueDate = Some (time_Unix 259200 0),
              opt_MergeRequestToResolveDiscussionsOf = None,
              opt_DiscussionToResolve = None, opt_Weight = None\<rparr>)],
     reads = [example_root @ ''/a.md''],
     logs = [LastRun (time_Unix 90000 0), WasDue (example_root @ ''/a.md'') (time_Unix 172800 0)],
     clock = 1\<rparr>)"
proof -
  have a: "time_Add (time_Unix 172800 0) (24 * Hour) = time_Unix 259200 0"
    by (simp add: time_Add_def time_Unix_def Hour_def Second_def Nanosecond_def)
  have b: "time_Before (time_Unix 172800 0) (time_Unix 172801 0)"
    by (simp add: time_Before_def time_Unix_def Second_def Nanosecond_def)
  have p: "parseMetadata example_world_broken ''daily'' = parseMetadata example_world ''daily''"
    by (simp add: parseMetadata_def)
  show ?thesis
    by (simp add: processIssueFile_def Ext_md_iff example_a_md p createIssue_def a b
        example_client new_metadata_def example_globals_def)
qed

section \<open>The claims\<close>

subsection \<open>C1: the required environment settings\<close>

text \<open>
  Claim C1 asks that each of the five settings, when absent, ends the process with a
  fatal message naming it, before anything else is done. \<open>main\<close> does so for
  \<^verbatim>\<open>GITLAB_API_TOKEN\<close> and \<^verbatim>\<open>CI_API_V4_URL\<close>; the checks written for
  \<^verbatim>\<open>CI_PROJECT_ID\<close>, \<^verbatim>\<open>CI_PROJECT_DIR\<close> and \<^verbatim>\<open>CI_JOB_NAME\<close> test
  \<open>gitlabAPIToken\<close> instead of the variable just read, so they never fire. In the example
  world started without \<^verbatim>\<open>CI_JOB_NAME\<close> the run is not stopped: no job has the empty
  name, the last run is taken to be the epoch, and two issues are created.
\<close>

theorem main_runs_without_CI_JOB_NAME:
  "Getenv example_world_no_job_name ''CI_JOB_NAME'' = [] \<and>
   fst (main example_world_no_job_name initial_state) = Return () \<and>
   map fst (requests (snd (main example_world_no_job_name initial_state))) = [42, 42] \<and>
   logs (snd (main example_world_no_job_name initial_state)) =
     [LastRun (time_Unix 0 0),
      WasDue (example_root @ ''/a.md'') (time_Unix 86400 0),
      WasDue (example_root @ ''/d.md'') (time_Unix 86400 0),
      RunComplete]"
proof -
  let ?w = example_world_no_job_name
  let ?g = "example_globals\<lparr>ciJobName := []\<rparr>"
  have tok: "Getenv ?w ''GITLAB_API_TOKEN'' \<noteq> []" by (simp add: example_env_def)
  have url: "Getenv ?w ''CI_API_V4_URL'' \<noteq> []" by (simp add: example_env_def)
  have g: "loaded_globals ?w = ?g"
    by (simp add: loaded_globals_def example_globals_def example_env_def)
  have last: "getLastRunTime ?w ?g = Return (time_Unix 0 0, None)"
    by (simp add: getLastRunTime_def example_pipelines_def example_jobs_def example_globals_def)
  have n: "Next cronexpr_daily (time_Unix 0 0) = time_Unix 86400 0"
    by (simp add: cronexpr_daily_def time_Unix_def Hour_def Second_def Nanosecond_def)
  have b: "time_Before (time_Unix 86400 0) (time_Unix 172801 0)"
    by (simp add: time_Before_def time_Unix_def Second_def Nanosecond_def)
  have p: "parseMetadata ?w = parseMetadata example_world"
    by (rule ext) (simp add: parseMetadata_def)
  have root: "processIssueFile ?w ?g (time_Unix 0 0) example_root None s = (Return None, s)" for s
    by (simp add: processIssueFile_def Ext_md_iff suffix_def example_root_def)
  have other: "processIssueFile ?w ?g (time_Unix 0 0) (example_root @ ''/b.txt'') None s =
      (Return None, s)" for s
    by (simp add: processIssueFile_def Ext_md_iff suffix_def example_root_def)
  have ad: "time_Add (time_Unix 86400 0) (24 * Hour) = time_Unix 172800 0"
    by (simp add: time_Add_def time_Unix_def Hour_def Second_def Nanosecond_def)
  let ?o1 = "\<lparr>opt_IID = None, opt_Title = Some ''Daily reminder'',
       opt_Description = Some ''Action 1'', opt_Confidential = Some False,
       opt_AssigneeIDs = [], opt_MilestoneID = None, opt_Labels = [],
       opt_CreatedAt = Some (time_Unix 86400 0), opt_DueDate = Some (time_Unix 172800 0),
       opt_MergeRequestToResolveDiscussionsOf = None,
       opt_DiscussionToResolve = None, opt_Weight = None\<rparr>"
  let ?o2 = "\<lparr>opt_IID = None, opt_Title = Some ''Plain'',
       opt_Description = Some [], opt_Confidential = Some True,
       opt_AssigneeIDs = [], opt_MilestoneID = None, opt_Labels = [],
       opt_CreatedAt = Some (time_Unix 86400 0), opt_DueDate = None,
       opt_MergeRequestToResolveDiscussionsOf = None,
       opt_DiscussionToResolve = None, opt_Weight = None\<rparr>"
  have a: "processIssueFile ?w ?g (time_Unix 0 0) (example_root @ ''/a.md'') None s =
      (Return None, s\<lparr>requests := requests s @ [(42, ?o1)],
         reads := reads s @ [example_root @ ''/a.md''],
         logs := logs s @ [WasDue (example_root @ ''/a.md'') (time_Unix 86400 0)],
         clock := clock s + 1\<rparr>)" for s
    by (simp add: processIssueFile_def Ext_md_iff example_a_md p n b ad createIssue_def
        new_metadata_def example_globals_def)
  have d: "processIssueFile ?w ?g (time_Unix 0 0) (example_root @ ''/d.md'') None s =
      (Return None, s\<lparr>requests := requests s @ [(42, ?o2)],
         reads := reads s @ [example_root @ ''/d.md''],
         logs := logs s @ [WasDue (example_root @ ''/d.md'') (time_Unix 86400 0)],
         clock := clock s + 1\<rparr>)" for s
    by (simp add: processIssueFile_def Ext_md_iff example_d_md p n b createIssue_def
        new_metadata_def example_globals_def)
  have dir: "issuesRelativePath example_globals = example_root"
    by (simp add: example_globals_def)
  have "main ?w initial_state =
      (Return (),
       \<lparr>requests = [(42, ?o1), (42, ?o2)],
        reads = [example_root @ ''/a.md'', example_root @ ''/d.md''],
        logs = [LastRun (time_Unix 0 0),
                WasDue (example_root @ ''/a.md'') (time_Unix 86400 0),
                WasDue (example_root @ ''/d.md'') (time_Unix 86400 0),
                RunComplete],
        clock = 2\<rparr>)"
    by (simp add: main_loaded [OF tok url] g last dir root other a d initial_state_def)
  then show ?thesis by (simp add: tok example_env_def)
qed

subsection \<open>C2: when a template is due\<close>

text \<open>
  Claim C2 has an issue created exactly when the next occurrence is not after the current
  time, so also when the two are equal. The program compares with \<^verbatim>\<open>Before\<close>: in the
  example world read at the very instant the daily template falls due, the template is
  logged as due later and no request is made.
\<close>

theorem processIssueFile_equal_now_counterexample:
  "Next cronexpr_daily (time_Unix 90000 0) = Now example_world_on_time 0 \<and>
   processIssueFile example_world_on_time example_globals (time_Unix 90000 0)
       (example_root @ ''/a.md'') None initial_state =
     (Return None,
      \<lparr>requests = [], reads = [example_root @ ''/a.md''],
       logs = [IsDue (example_root @ ''/a.md'') (time_Unix 172800 0)], clock = 1\<rparr>)"
  by (simp add: example_a_md processIssueFile_def Ext_md_iff time_Before_def initial_state_def)

text \<open>
  Claim C2, amended: for a template that is read and parsed, with next occurrence \<open>T\<close>
  and the clock reading \<open>now\<close>, \<open>createIssue\<close> is called (after the line ``was due'')
  exactly when \<open>T\<close> is strictly before \<open>now\<close>; when \<open>T\<close> equals \<open>now\<close> or is after it,
  the template is skipped with the line ``is due'' and no request is made.
\<close>

theorem processIssueFile_creates_iff_Before:
  assumes "suffix ''.md'' path"
    and "ReadFile w path = Inr contents"
    and "parseMetadata w contents = Inr data"
    and "cronexpr_Parse w (Crontab data) = Inr cronExpression"
    and "T = Next cronExpression lastTime"
    and "now = Now w (clock s)"
  shows "(T < now \<longrightarrow>
            processIssueFile w g lastTime path None s =
              (case createIssue w g (data\<lparr>NextTime := T\<rparr>)
                      (s\<lparr>reads := reads s @ [path], clock := clock s + 1,
                         logs := logs s @ [WasDue path T]\<rparr>) of
                 (err, s') \<Rightarrow> (Return err, s')))
       \<and> (\<not> T < now \<longrightarrow>
            processIssueFile w g lastTime path None s =
              (Return None, s\<lparr>reads := reads s @ [path], clock := clock s + 1,
                              logs := logs s @ [IsDue path T]\<rparr>))"
proof -
  from assms(1) have "filepath_Ext path = ''.md''" by (simp add: Ext_md_iff)
  with assms(2-6) show ?thesis
    by (simp add: processIssueFile_def Let_def time_Before_def split: prod.splits option.splits)
qed

theorem processIssueFile_creates_iff_Before_witness:
  "processIssueFile example_world example_globals (time_Unix 90000 0)
       (example_root @ ''/a.md'') None initial_state =
     (case createIssue example_world example_globals
             (new_metadata\<lparr>Title := ''Daily reminder'', Description := ''Action 1'',
                     Assignees := [''alice''], Labels := [''chore''],
                     DueIn := ''24h'', Crontab := ''@daily'', NextTime := time_Unix 172800 0\<rparr>)
             (initial_state\<lparr>reads := [example_root @ ''/a.md''], clock := 1,
                logs := [WasDue (example_root @ ''/a.md'') (time_Unix 172800 0)]\<rparr>) of
        (err, s') \<Rightarrow> (Return err, s')) \<and>
   processIssueFile example_world_on_time example_globals (time_Unix 90000 0)
       (example_root @ ''/a.md'') None initial_state =
     (Return None, initial_state\<lparr>reads := [example_root @ ''/a.md''], clock := 1,
                logs := [IsDue (example_root @ ''/a.md'') (time_Unix 172800 0)]\<rparr>)"
proof
  let ?d = "new_metadata\<lparr>Title := ''Daily reminder'', Description := ''Action 1'',
                     Assignees := [''alice''], Labels := [''chore''],
                     DueIn := ''24h'', Crontab := ''@daily''\<rparr>"
  have r: "ReadFile example_world (example_root @ ''/a.md'') = Inr ''daily''" by simp
  have c: "cronexpr_Parse example_world (Crontab ?d) = Inr cronexpr_daily" by simp
  have t: "time_Unix 172800 0 = Next cronexpr_daily (time_Unix 90000 0)"
    by (simp add: example_a_md)
  have n: "time_Unix 172801 0 = Now example_world (clock initial_state)" by simp
  have lt: "time_Unix 172800 0 < time_Unix 172801 0"
    by (simp add: time_Unix_def Second_def Nanosecond_def)
  from processIssueFile_creates_iff_Before
         [OF example_a_md(1) r example_a_md(2) c t n, of example_globals] lt
  show "processIssueFile example_world example_globals (time_Unix 90000 0)
       (example_root @ ''/a.md'') None initial_state =
     (case createIssue example_world example_globals
             (new_metadata\<lparr>Title := ''Daily reminder'', Description := ''Action 1'',
                     Assignees := [''alice''], Labels := [''chore''],
                     DueIn := ''24h'', Crontab := ''@daily'', NextTime := time_Unix 172800 0\<rparr>)
             (initial_state\<lparr>reads := [example_root @ ''/a.md''], clock := 1,
                logs := [WasDue (example_root @ ''/a.md'') (time_Unix 172800 0)]\<rparr>) of
        (err, s') \<Rightarrow> (Return err, s'))"
    by (simp add: initial_state_def)
next
  let ?d = "new_metadata\<lparr>Title := ''Daily reminder'', Description := ''Action 1'',
                     Assignees := [''alice''], Labels := [''chore''],
                     DueIn := ''24h'', Crontab := ''@daily''\<rparr>"
  have r: "ReadFile example_world_on_time (example_root @ ''/a.md'') = Inr ''daily''" by simp
  have c: "cronexpr_Parse example_world_on_time (Crontab ?d) = Inr cronexpr_daily" by simp
  have t: "time_Unix 172800 0 = Next cronexpr_daily (time_Unix 90000 0)"
    by (simp add: example_a_md)
  have n: "time_Unix 172800 0 = Now example_world_on_time (clock initial_state)" by simp
  from processIssueFile_creates_iff_Before
         [OF example_a_md(1) r example_a_md(3) c t n, of example_globals]
  show "processIssueFile example_world_on_time example_globals (time_Unix 90000 0)
       (example_root @ ''/a.md'') None initial_state =
     (Return None, initial_state\<lparr>reads := [example_root @ ''/a.md''], clock := 1,
                logs := [IsDue (example_root @ ''/a.md'') (time_Unix 172800 0)]\<rparr>)"
    by (simp add: initial_state_def)
qed

subsection \<open>C3: the last run\<close>

text \<open>
  Claim C3 has \<open>getLastRunTime\<close> return the finish time of the job of the configured
  name, whatever the status of that job. A job that never ran has no finish time: in the
  example world the first job named \<^verbatim>\<open>deploy\<close> is a manual job of the most recent
  pipeline, and with that job name the call panics instead of returning.
\<close>

theorem getLastRunTime_nil_FinishedAt_counterexample:
  "ListPipelineJobs example_world (Client ''secret'' ''https://gitlab.example.com/api/v4'') ''42'' 7 =
     Inr [\<lparr>job_Name = ''build'', job_Status = ''success'',
            job_FinishedAt = Some (time_Unix 100000 0)\<rparr>,
          \<lparr>job_Name = ''deploy'', job_Status = ''manual'', job_FinishedAt = None\<rparr>] \<and>
   getLastRunTime example_world (example_globals\<lparr>ciJobName := ''deploy''\<rparr>) = Panic"
  by (simp add: getLastRunTime_def example_pipelines_def example_jobs_def example_globals_def)

text \<open>
  Claim C3, amended: the client being built, \<open>getLastRunTime\<close> asks for the finished
  pipelines of status success ordered by update time. It returns, with no error, the
  finish time of the first job of the configured name in the first pipeline of the answer
  that has such a job, whatever the status of that job, provided that job has a finish
  time. The program takes the answer as it is: when the answer holds only successful
  pipelines, in descending order of update time, that pipeline is successful and no
  pipeline of the answer with such a job was updated later. When every pipeline of the
  answer has its jobs listed and none has a job of that name, the call returns
  \<^verbatim>\<open>time.Unix(0, 0)\<close> with no error.
\<close>

theorem getLastRunTime_first_matching_job:
  assumes "gitlab_NewClient w (gitlabAPIToken g) (ciAPIV4URL g) = Inr git"
    and "ListProjectPipelines w git (ciProjectID g)
           \<lparr>lpp_Scope = Some ''finished'', lpp_Status = Some Success, lpp_Ref = None,
            lpp_OrderBy = Some ''updated_at'', lpp_Sort = None\<rparr> = Inr pipelineInfos"
  shows "(pipelineInfos = pre @ p # post \<and>
          (\<forall>q\<in>set pre. \<exists>js. ListPipelineJobs w git (ciProjectID g) (pipeline_ID q) = Inr js \<and>
              (\<forall>j\<in>set js. job_Name j \<noteq> ciJobName g)) \<and>
          ListPipelineJobs w git (ciProjectID g) (pipeline_ID p) = Inr (js1 @ job # js2) \<and>
          (\<forall>j\<in>set js1. job_Name j \<noteq> ciJobName g) \<and>
          job_Name job = ciJobName g \<and> job_FinishedAt job = Some t
          \<longrightarrow> getLastRunTime w g = Return (t, None) \<and>
              ((\<forall>q\<in>set pipelineInfos. pipeline_Status q = ''success'') \<and>
               sorted_wrt (\<lambda>a b. \<not> updated_after b a) pipelineInfos
               \<longrightarrow> pipeline_Status p = ''success'' \<and>
                   (\<forall>q\<in>set pipelineInfos.
                      (\<exists>js. ListPipelineJobs w git (ciProjectID g) (pipeline_ID q) = Inr js \<and>
                            (\<exists>j\<in>set js. job_Name j = ciJobName g))
                      \<longrightarrow> \<not> updated_after q p)))
       \<and> ((\<forall>q\<in>set pipelineInfos.
              \<exists>js. ListPipelineJobs w git (ciProjectID g) (pipeline_ID q) = Inr js \<and>
                (\<forall>j\<in>set js. job_Name j \<noteq> ciJobName g))
          \<longrightarrow> getLastRunTime w g = Return (time_Unix 0 0, None))"
proof (intro conjI impI)
  assume h: "pipelineInfos = pre @ p # post \<and>
          (\<forall>q\<in>set pre. \<exists>js. ListPipelineJobs w git (ciProjectID g) (pipeline_ID q) = Inr js \<and>
              (\<forall>j\<in>set js. job_Name j \<noteq> ciJobName g)) \<and>
          ListPipelineJobs w git (ciProjectID g) (pipeline_ID p) = Inr (js1 @ job # js2) \<and>
          (\<forall>j\<in>set js1. job_Name j \<noteq> ciJobName g) \<and>
          job_Name job = ciJobName g \<and> job_FinishedAt job = Some t"
  then have "pipelines_loop w g git (pre @ p # post) =
     (case job_FinishedAt job of None \<Rightarrow> Panic | Some t \<Rightarrow> Return (t, None))"
    by (intro pipelines_loop_first_match) auto
  with h assms show "getLastRunTime w g = Return (t, None)"
    by (simp add: getLastRunTime_def pipelines_options_def)
next
  assume h: "pipelineInfos = pre @ p # post \<and>
          (\<forall>q\<in>set pre. \<exists>js. ListPipelineJobs w git (ciProjectID g) (pipeline_ID q) = Inr js \<and>
              (\<forall>j\<in>set js. job_Name j \<noteq> ciJobName g)) \<and>
          ListPipelineJobs w git (ciProjectID g) (pipeline_ID p) = Inr (js1 @ job # js2) \<and>
          (\<forall>j\<in>set js1. job_Name j \<noteq> ciJobName g) \<and>
          job_Name job = ciJobName g \<and> job_FinishedAt job = Some t"
    and api: "(\<forall>q\<in>set pipelineInfos. pipeline_Status q = ''success'') \<and>
               sorted_wrt (\<lambda>a b. \<not> updated_after b a) pipelineInfos"
  from h api show "pipeline_Status p = ''success''" by simp
next
  assume h: "pipelineInfos = pre @ p # post \<and>
          (\<forall>q\<in>set pre. \<exists>js. ListPipelineJobs w git (ciProjectID g) (pipeline_ID q) = Inr js \<and>
              (\<forall>j\<in>set js. job_Name j \<noteq> ciJobName g)) \<and>
          ListPipelineJobs w git (ciProjectID g) (pipeline_ID p) = Inr (js1 @ job # js2) \<and>
          (\<forall>j\<in>set js1. job_Name j \<noteq> ciJobName g) \<and>
          job_Name job = ciJobName g \<and> job_FinishedAt job = Some t"
    and api: "(\<forall>q\<in>set pipelineInfos. pipeline_Status q = ''success'') \<and>
               sorted_wrt (\<lambda>a b. \<not> updated_after b a) pipelineInfos"
  from h api have later: "\<forall>q\<in>set post. \<not> updated_after q p"
    using sorted_wrt_first_of_rest [of "\<lambda>a b. \<not> updated_after b a" pre p post] by simp
  show "\<forall>q\<in>set pipelineInfos.
          (\<exists>js. ListPipelineJobs w git (ciProjectID g) (pipeline_ID q) = Inr js \<and>
                (\<exists>j\<in>set js. job_Name j = ciJobName g))
          \<longrightarrow> \<not> updated_after q p"
  proof (intro ballI impI)
    fix q
    assume q: "q \<in> set pipelineInfos"
      and m: "\<exists>js. ListPipelineJobs w git (ciProjectID g) (pipeline_ID q) = Inr js \<and>
                (\<exists>j\<in>set js. job_Name j = ciJobName g)"
    from q h consider "q \<in> set pre" | "q = p" | "q \<in> set post" by auto
    then show "\<not> updated_after q p"
    proof cases
      case 1
      with h obtain js where "ListPipelineJobs w git (ciProjectID g) (pipeline_ID q) = Inr js"
        "\<forall>j\<in>set js. job_Name j \<noteq> ciJobName g" by blast
      with m show ?thesis by auto
    next
      case 2
      then show ?thesis by (simp add: not_updated_after_self)
    next
      case 3
      with later show ?thesis by simp
    qed
  qed
next
  assume "\<forall>q\<in>set pipelineInfos.
              \<exists>js. ListPipelineJobs w git (ciProjectID g) (pipeline_ID q) = Inr js \<and>
                (\<forall>j\<in>set js. job_Name j \<noteq> ciJobName g)"
  then have "pipelines_loop w g git (pipelineInfos @ []) = pipelines_loop w g git []"
    by (rule pipelines_loop_skip)
  with assms show "getLastRunTime w g = Return (time_Unix 0 0, None)"
    by (simp add: getLastRunTime_def pipelines_options_def)
qed

theorem getLastRunTime_first_matching_job_witness:
  "getLastRunTime example_world example_globals = Return (time_Unix 90000 0, None) \<and>
   \<not> updated_after
       \<lparr>pipeline_ID = 3, pipeline_Status = ''success'',
       pipeline_UpdatedAt = Some (time_Unix 3700 0)\<rparr>
       \<lparr>pipeline_ID = 5, pipeline_Status = ''success'',
       pipeline_UpdatedAt = Some (time_Unix 90100 0)\<rparr> \<and>
   getLastRunTime example_world (example_globals\<lparr>ciJobName := ''publish''\<rparr>) =
     Return (time_Unix 0 0, None)"
proof (intro conjI)
  let ?git = "Client ''secret'' ''https://gitlab.example.com/api/v4''"
  let ?build = "\<lparr>job_Name = ''build'', job_Status = ''success'',
                 job_FinishedAt = Some (time_Unix 89000 0)\<rparr>"
  let ?failed = "\<lparr>job_Name = ''recurring issues'', job_Status = ''failed'',
                  job_FinishedAt = Some (time_Unix 90000 0)\<rparr>"
  let ?canceled = "\<lparr>job_Name = ''recurring issues'', job_Status = ''canceled'',
                    job_FinishedAt = None\<rparr>"
  let ?p7 = "\<lparr>pipeline_ID = 7, pipeline_Status = ''success'',
       pipeline_UpdatedAt = Some (time_Unix 100100 0)\<rparr>"
  let ?p5 = "\<lparr>pipeline_ID = 5, pipeline_Status = ''success'',
       pipeline_UpdatedAt = Some (time_Unix 90100 0)\<rparr>"
  let ?p3 = "\<lparr>pipeline_ID = 3, pipeline_Status = ''success'',
       pipeline_UpdatedAt = Some (time_Unix 3700 0)\<rparr>"
  have l: "ListProjectPipelines example_world ?git (ciProjectID example_globals)
           \<lparr>lpp_Scope = Some ''finished'', lpp_Status = Some Success, lpp_Ref = None,
            lpp_OrderBy = Some ''updated_at'', lpp_Sort = None\<rparr> = Inr example_pipelines"
    by (simp add: example_globals_def)
  have d: "example_pipelines = [?p7] @ ?p5 # [?p3] \<and>
          (\<forall>q\<in>set [?p7].
             \<exists>js. ListPipelineJobs example_world ?git (ciProjectID example_globals)
                    (pipeline_ID q) = Inr js \<and>
              (\<forall>j\<in>set js. job_Name j \<noteq> ciJobName example_globals)) \<and>
          ListPipelineJobs example_world ?git (ciProjectID example_globals) (pipeline_ID ?p5) =
            Inr ([?build] @ ?failed # [?canceled]) \<and>
          (\<forall>j\<in>set [?build]. job_Name j \<noteq> ciJobName example_globals) \<and>
          job_Name ?failed = ciJobName example_globals \<and>
          job_FinishedAt ?failed = Some (time_Unix 90000 0)"
    by (simp add: example_pipelines_def example_jobs_def example_globals_def)
  have api: "(\<forall>q\<in>set example_pipelines. pipeline_Status q = ''success'') \<and>
      sorted_wrt (\<lambda>a b. \<not> updated_after b a) example_pipelines"
    by (simp add: example_pipelines_def updated_after_def time_Unix_def Second_def Nanosecond_def)
  have m: "?p3 \<in> set example_pipelines \<and>
      (\<exists>js. ListPipelineJobs example_world ?git (ciProjectID example_globals)
              (pipeline_ID ?p3) = Inr js \<and>
            (\<exists>j\<in>set js. job_Name j = ciJobName example_globals))"
    by (simp add: example_pipelines_def example_jobs_def example_globals_def)
  note t = getLastRunTime_first_matching_job [OF example_client(1) l, of "[?p7]" ?p5 "[?p3]" "[?build]" ?failed "[?canceled]"
      "time_Unix 90000 0"]
  from t d show "getLastRunTime example_world example_globals = Return (time_Unix 90000 0, None)"
    by blast
  from t d api m show "\<not> updated_after ?p3 ?p5"
    by blast
next
  let ?git = "Client ''secret'' ''https://gitlab.example.com/api/v4''"
  let ?g = "example_globals\<lparr>ciJobName := ''publish''\<rparr>"
  have c: "gitlab_NewClient example_world (gitlabAPIToken ?g) (ciAPIV4URL ?g) = Inr ?git"
    by (simp add: example_globals_def)
  have l: "ListProjectPipelines example_world ?git (ciProjectID ?g)
           \<lparr>lpp_Scope = Some ''finished'', lpp_Status = Some Success, lpp_Ref = None,
            lpp_OrderBy = Some ''updated_at'', lpp_Sort = None\<rparr> = Inr example_pipelines"
    by (simp add: example_globals_def)
  have "\<forall>q\<in>set example_pipelines.
          \<exists>js. ListPipelineJobs example_world ?git (ciProjectID ?g) (pipeline_ID q) = Inr js \<and>
            (\<forall>j\<in>set js. job_Name j \<noteq> ciJobName ?g)"
    by (simp add: example_pipelines_def example_jobs_def)
  with getLastRunTime_first_matching_job [OF c l]
  show "getLastRunTime example_world ?g = Return (time_Unix 0 0, None)"
    by blast
qed

subsection \<open>C4: the times of the request\<close>

text \<open>
  Claim C4: for a template that is due, with computed occurrence \<open>T\<close>, and once the client
  and the project are obtained, the request submitted has its creation time set to \<open>T\<close>,
  whatever the clock reads; when \<open>dueIn\<close> is empty the due date is left unset, and when
  \<open>dueIn\<close> is not empty and parses as the duration \<open>d\<close> the due date is \<open>T\<close> plus \<open>d\<close>.
\<close>

theorem processIssueFile_request_times:
  assumes "suffix ''.md'' path"
    and "ReadFile w path = Inr contents"
    and "parseMetadata w contents = Inr data"
    and "cronexpr_Parse w (Crontab data) = Inr cronExpression"
    and "T = Next cronExpression lastTime"
    and "time_Before T (Now w (clock s))"
    and "gitlab_NewClient w (gitlabAPIToken g) (ciAPIV4URL g) = Inr git"
    and "GetProject w git (ciProjectID g) = Inr project"
  shows "(DueIn data = [] \<longrightarrow>
            (\<exists>options. requests (snd (processIssueFile w g lastTime path None s)) =
                 requests s @ [(project_ID project, options)] \<and>
               opt_CreatedAt options = Some T \<and> opt_DueDate options = None))
       \<and> (\<forall>d. DueIn data \<noteq> [] \<and> time_ParseDuration w (DueIn data) = Inr d \<longrightarrow>
            (\<exists>options. requests (snd (processIssueFile w g lastTime path None s)) =
                 requests s @ [(project_ID project, options)] \<and>
               opt_CreatedAt options = Some T \<and> opt_DueDate options = Some (time_Add T d)))"
proof -
  let ?data = "data\<lparr>NextTime := T\<rparr>"
  let ?s = "s\<lparr>reads := reads s @ [path], clock := clock s + 1,
              logs := logs s @ [WasDue path T]\<rparr>"
  from assms(1) have "filepath_Ext path = ''.md''" by (simp add: Ext_md_iff)
  with assms(2-6)
  have p: "snd (processIssueFile w g lastTime path None s) = snd (createIssue w g ?data ?s)"
    by (simp add: processIssueFile_def Let_def split: prod.splits option.splits)
  show ?thesis
    using createIssue_requests [OF assms(7,8), where data = ?data and s = ?s] by (simp add: p)
qed

theorem processIssueFile_request_times_witness:
  "(\<exists>options. requests (snd (processIssueFile example_world example_globals (time_Unix 90000 0)
                  (example_root @ ''/a.md'') None initial_state)) = [(42, options)] \<and>
      opt_CreatedAt options = Some (time_Unix 172800 0) \<and>
      opt_DueDate options = Some (time_Unix 259200 0)) \<and>
   (\<exists>options. requests (snd (processIssueFile example_world example_globals (time_Unix 90000 0)
                  (example_root @ ''/d.md'') None initial_state)) = [(42, options)] \<and>
      opt_CreatedAt options = Some (time_Unix 172800 0) \<and> opt_DueDate options = None)"
proof
  let ?d = "new_metadata\<lparr>Title := ''Daily reminder'', Description := ''Action 1'',
                     Assignees := [''alice''], Labels := [''chore''],
                     DueIn := ''24h'', Crontab := ''@daily''\<rparr>"
  have r: "ReadFile example_world (example_root @ ''/a.md'') = Inr ''daily''" by simp
  have c: "cronexpr_Parse example_world (Crontab ?d) = Inr cronexpr_daily" by simp
  have t: "time_Unix 172800 0 = Next cronexpr_daily (time_Unix 90000 0)"
    by (simp add: example_a_md)
  have b: "time_Before (time_Unix 172800 0) (Now example_world (clock initial_state))"
    by (simp add: time_Before_def time_Unix_def Second_def Nanosecond_def)
  have d: "DueIn ?d \<noteq> [] \<and> time_ParseDuration example_world (DueIn ?d) = Inr (24 * Hour)"
    by simp
  have a: "time_Add (time_Unix 172800 0) (24 * Hour) = time_Unix 259200 0"
    by (simp add: time_Add_def time_Unix_def Hour_def Second_def Nanosecond_def)
  from processIssueFile_request_times
         [OF example_a_md(1) r example_a_md(2) c t b example_client(1,2)] d a
  show "\<exists>options. requests (snd (processIssueFile example_world example_globals (time_Unix 90000 0)
                  (example_root @ ''/a.md'') None initial_state)) = [(42, options)] \<and>
      opt_CreatedAt options = Some (time_Unix 172800 0) \<and>
      opt_DueDate options = Some (time_Unix 259200 0)"
    by (simp add: initial_state_def)
next
  let ?d = "new_metadata\<lparr>Title := ''Plain'', Confidential := True, Crontab := ''@daily''\<rparr>"
  have c: "cronexpr_Parse example_world (Crontab ?d) = Inr cronexpr_daily" by simp
  have t: "time_Unix 172800 0 = Next cronexpr_daily (time_Unix 90000 0)"
    by (simp add: example_a_md)
  have b: "time_Before (time_Unix 172800 0) (Now example_world (clock initial_state))"
    by (simp add: time_Before_def time_Unix_def Second_def Nanosecond_def)
  have d: "DueIn ?d = []" by (simp add: new_metadata_def)
  from processIssueFile_request_times
         [OF example_d_md(1,2,3) c t b example_client(1,2)] d
  show "\<exists>options. requests (snd (processIssueFile example_world example_globals (time_Unix 90000 0)
                  (example_root @ ''/d.md'') None initial_state)) = [(42, options)] \<and>
      opt_CreatedAt options = Some (time_Unix 172800 0) \<and> opt_DueDate options = None"
    by (simp add: initial_state_def)
qed

subsection \<open>C5: a crontab that does not parse\<close>

text \<open>
  Claim C5: when the walk reaches a markdown file whose crontab expression does not
  parse, after entries that were processed without error, the run ends there with that
  error as a fatal message. The state it ends in is the one the earlier entries left,
  plus the read of this file: no request is made for this file, and the entries after it
  are never processed.
\<close>

theorem main_aborts_on_crontab_error:
  assumes "Getenv w ''GITLAB_API_TOKEN'' \<noteq> []"
    and "Getenv w ''CI_API_V4_URL'' \<noteq> []"
    and "getLastRunTime w (loaded_globals w) = Return (lastRunTime, None)"
    and "walk_calls w (issuesRelativePath (loaded_globals w)) = pre @ (path, None) # post"
    and "Walk_loop (processIssueFile w (loaded_globals w) lastRunTime) pre
           (s\<lparr>logs := logs s @ [LastRun lastRunTime]\<rparr>) = (Return None, s1)"
    and "suffix ''.md'' path"
    and "ReadFile w path = Inr contents"
    and "parseMetadata w contents = Inr data"
    and "cronexpr_Parse w (Crontab data) = Inl e"
  shows "main w s = (Fatal (message e), s1\<lparr>reads := reads s1 @ [path]\<rparr>)"
proof -
  from assms(6) have "filepath_Ext path = ''.md''" by (simp add: Ext_md_iff)
  with assms(7-9)
  have f: "processIssueFile w (loaded_globals w) lastRunTime path None s1 =
      (Return (Some e), s1\<lparr>reads := reads s1 @ [path]\<rparr>)"
    by (simp add: processIssueFile_def)
  have "Walk_loop (processIssueFile w (loaded_globals w) lastRunTime)
          (pre @ (path, None) # post) (s\<lparr>logs := logs s @ [LastRun lastRunTime]\<rparr>) =
        Walk_loop (processIssueFile w (loaded_globals w) lastRunTime) ((path, None) # post) s1"
    using assms(5) by (rule Walk_loop_append)
  also have "\<dots> = (Return (Some e), s1\<lparr>reads := reads s1 @ [path]\<rparr>)"
    by (simp add: f)
  finally show ?thesis
    using assms(1-4) by (simp add: main_loaded)
qed

theorem main_aborts_on_crontab_error_witness:
  "main example_world_broken initial_state =
     (Fatal ''syntax error in crontab'',
      \<lparr>requests =
         [(42, \<lparr>opt_IID = None, opt_Title = Some ''Daily reminder'',
                opt_Description = Some ''Action 1'', opt_Confidential = Some False,
                opt_AssigneeIDs = [], opt_MilestoneID = None, opt_Labels = [],
                opt_CreatedAt = Some (time_Unix 172800 0),
                opt_DueDate = Some (time_Unix 259200 0),
                opt_MergeRequestToResolveDiscussionsOf = None,
                opt_DiscussionToResolve = None, opt_Weight = None\<rparr>)],
       reads = [example_root @ ''/a.md'', example_root @ ''/c.md''],
       logs = [LastRun (time_Unix 90000 0),
               WasDue (example_root @ ''/a.md'') (time_Unix 172800 0)],
       clock = 1\<rparr>)"
proof -
  let ?w = example_world_broken
  let ?s1 = "\<lparr>requests =
         [(42, \<lparr>opt_IID = None, opt_Title = Some ''Daily reminder'',
                opt_Description = Some ''Action 1'', opt_Confidential = Some False,
                opt_AssigneeIDs = [], opt_MilestoneID = None, opt_Labels = [],
                opt_CreatedAt = Some (time_Unix 172800 0),
                opt_DueDate = Some (time_Unix 259200 0),
                opt_MergeRequestToResolveDiscussionsOf = None,
                opt_DiscussionToResolve = None, opt_Weight = None\<rparr>)],
       reads = [example_root @ ''/a.md''],
       logs = [LastRun (time_Unix 90000 0),
               WasDue (example_root @ ''/a.md'') (time_Unix 172800 0)],
       clock = 1\<rparr>"
  have tok: "Getenv ?w ''GITLAB_API_TOKEN'' \<noteq> []" by (simp add: example_env_def)
  have url: "Getenv ?w ''CI_API_V4_URL'' \<noteq> []" by (simp add: example_env_def)
  have last: "getLastRunTime ?w (loaded_globals ?w) = Return (time_Unix 90000 0, None)"
    by (simp add: example_broken_globals example_broken_getLastRunTime)
  have calls: "walk_calls ?w (issuesRelativePath (loaded_globals ?w)) =
      [(example_root, None), (example_root @ ''/a.md'', None), (example_root @ ''/b.txt'', None)] @
      (example_root @ ''/c.md'', None) # [(example_root @ ''/d.md'', None)]"
    by (simp add: example_broken_globals example_globals_def)
  have root: "processIssueFile ?w example_globals (time_Unix 90000 0) example_root None s =
      (Return None, s)" for s
    by (simp add: processIssueFile_def Ext_md_iff suffix_def example_root_def)
  have other: "processIssueFile ?w example_globals (time_Unix 90000 0)
      (example_root @ ''/b.txt'') None s = (Return None, s)" for s
    by (simp add: processIssueFile_def Ext_md_iff suffix_def example_root_def)
  have pre: "Walk_loop (processIssueFile ?w (loaded_globals ?w) (time_Unix 90000 0))
      [(example_root, None), (example_root @ ''/a.md'', None), (example_root @ ''/b.txt'', None)]
      (initial_state\<lparr>logs := logs initial_state @ [LastRun (time_Unix 90000 0)]\<rparr>) =
      (Return None, ?s1)"
    by (simp add: example_broken_globals initial_state_def root other example_broken_a_md)
  have md: "suffix ''.md'' (example_root @ ''/c.md'')" by (simp add: suffix_def)
  have read: "ReadFile ?w (example_root @ ''/c.md'') = Inr ''broken''"
    by (simp add: example_root_def)
  have parse: "parseMetadata ?w ''broken'' =
      Inr (new_metadata\<lparr>Title := ''Broken'', Crontab := ''not-a-cron''\<rparr>)"
    by (simp add: parseMetadata_def example_Unmarshal_def)
  have cron: "cronexpr_Parse ?w
      (Crontab (new_metadata\<lparr>Title := ''Broken'', Crontab := ''not-a-cron''\<rparr>)) =
      Inl (Error ''syntax error in crontab'')"
    by simp
  from main_aborts_on_crontab_error [OF tok url last calls pre md read parse cron]
  show ?thesis by simp
qed

subsection \<open>C6: the next occurrence of \<open>@daily\<close>\<close>

text \<open>
  Claim C6: for every reference time, the next occurrence of \<^verbatim>\<open>@daily\<close> is strictly
  after the reference time and at most 24 hours after it.
\<close>

theorem daily_Next_bounds:
  "lastTime < Next cronexpr_daily lastTime \<and>
   Next cronexpr_daily lastTime \<le> time_Add lastTime (24 * Hour)"
proof -
  have "(0::int) < 24 * Hour" by (simp add: Hour_def Second_def Nanosecond_def)
  then show ?thesis by (simp add: cronexpr_daily_def time_Add_def next_multiple_bounds)
qed

subsection \<open>C7: what the request carries\<close>

text \<open>
  Claim C7: \<open>createIssue\<close> does the same whatever the assignees and labels of the
  metadata are, and a request it submits carries the title, the description, the
  confidentiality flag and the creation time of the metadata, possibly a due date, and
  nothing else: its assignee ids and its labels are empty.
\<close>

theorem createIssue_request_fields:
  "createIssue w g (data\<lparr>Assignees := as, Labels := ls\<rparr>) s = createIssue w g data s \<and>
   (requests (snd (createIssue w g data s)) = requests s \<or>
    (\<exists>pid due. requests (snd (createIssue w g data s)) = requests s @
       [(pid, \<lparr>opt_IID = None,
             opt_Title = Some (Title data),
             opt_Description = Some (Description data),
             opt_Confidential = Some (Confidential data),
             opt_AssigneeIDs = [],
             opt_MilestoneID = None,
             opt_Labels = [],
             opt_CreatedAt = Some (NextTime data),
             opt_DueDate = due,
             opt_MergeRequestToResolveDiscussionsOf = None,
             opt_DiscussionToResolve = None,
             opt_Weight = None\<rparr>)]))"
proof
  show "createIssue w g (data\<lparr>Assignees := as, Labels := ls\<rparr>) s = createIssue w g data s"
    by (simp add: createIssue_def Let_def split: sum.splits)
next
  show "requests (snd (createIssue w g data s)) = requests s \<or>
    (\<exists>pid due. requests (snd (createIssue w g data s)) = requests s @
       [(pid, \<lparr>opt_IID = None,
             opt_Title = Some (Title data),
             opt_Description = Some (Description data),
             opt_Confidential = Some (Confidential data),
             opt_AssigneeIDs = [],
             opt_MilestoneID = None,
             opt_Labels = [],
             opt_CreatedAt = Some (NextTime data),
             opt_DueDate = due,
             opt_MergeRequestToResolveDiscussionsOf = None,
             opt_DiscussionToResolve = None,
             opt_Weight = None\<rparr>)])"
    by (auto simp: createIssue_def Let_def split: sum.splits option.splits)
qed

subsection \<open>C8: entries that are not markdown files\<close>

text \<open>
  Claim C8: an entry whose path does not end with \<^verbatim>\<open>.md\<close> leaves the state as it is:
  no file is read and no request is made; and unless the walk itself reports an error
  for the entry, the call returns no error at once, so the walk goes on. Hence only
  entries ending with \<^verbatim>\<open>.md\<close> are read, parsed, evaluated and possibly turned into an
  issue.
\<close>

theorem processIssueFile_skips_non_markdown:
  assumes "\<not> suffix ''.md'' path"
  shows "snd (processIssueFile w g lastTime path err s) = s \<and>
         (err = None \<longrightarrow> processIssueFile w g lastTime path err s = (Return None, s))"
proof -
  from assms have "filepath_Ext path \<noteq> ''.md''" by (simp add: Ext_md_iff)
  then show ?thesis by (simp add: processIssueFile_def split: option.splits)
qed

theorem processIssueFile_skips_non_markdown_witness:
  "\<not> suffix ''.md'' (example_root @ ''/b.txt'') \<and>
   processIssueFile example_world example_globals 0 (example_root @ ''/b.txt'') None initial_state =
     (Return None, initial_state)"
proof -
  have h: "\<not> suffix ''.md'' (example_root @ ''/b.txt'')"
    by (simp add: suffix_def example_root_def)
  from processIssueFile_skips_non_markdown
         [OF h, of example_world example_globals 0 None initial_state]
  show ?thesis using h by simp
qed

subsection \<open>C10: the finish time that is nil\<close>

text \<open>
  Claim C10 has \<open>getLastRunTime\<close> free of faults only under the precondition that every
  job of the configured name in the listed pipelines has a finish time. In the example
  world the precondition fails (the second job named \<^verbatim>\<open>recurring issues\<close> of pipeline 5
  was canceled and has no finish time), and yet the call returns: the first job of that
  name has a finish time, and no other is looked at.
\<close>

theorem getLastRunTime_precondition_counterexample:
  "ListProjectPipelines example_world (Client ''secret'' ''https://gitlab.example.com/api/v4'')
       ''42'' pipelines_options = Inr example_pipelines \<and>
   \<lparr>pipeline_ID = 5, pipeline_Status = ''success'',
       pipeline_UpdatedAt = Some (time_Unix 90100 0)\<rparr> \<in> set example_pipelines \<and>
   ListPipelineJobs example_world (Client ''secret'' ''https://gitlab.example.com/api/v4'')
       ''42'' 5 =
     Inr [\<lparr>job_Name = ''build'', job_Status = ''success'',
            job_FinishedAt = Some (time_Unix 89000 0)\<rparr>,
          \<lparr>job_Name = ''recurring issues'', job_Status = ''failed'',
            job_FinishedAt = Some (time_Unix 90000 0)\<rparr>,
          \<lparr>job_Name = ''recurring issues'', job_Status = ''canceled'',
            job_FinishedAt = None\<rparr>] \<and>
   ciJobName example_globals = ''recurring issues'' \<and>
   getLastRunTime example_world example_globals = Return (time_Unix 90000 0, None)"
  by (simp add: getLastRunTime_def example_pipelines_def example_jobs_def example_globals_def)

text \<open>
  Claim C10, amended: \<open>getLastRunTime\<close> dereferences the finish time of the first job of
  the configured name without a check. The precondition that every job of that name in
  the listed pipelines has a finish time is enough for it not to panic, but is not
  needed: the call panics exactly when the first job of that name it reaches has no
  finish time, and then it is a panic, not an error return.
\<close>

theorem getLastRunTime_Panic_precondition:
  assumes "gitlab_NewClient w (gitlabAPIToken g) (ciAPIV4URL g) = Inr git"
    and "ListProjectPipelines w git (ciProjectID g) pipelines_options = Inr pipelineInfos"
  shows "((\<forall>q\<in>set pipelineInfos. \<forall>jobs.
             ListPipelineJobs w git (ciProjectID g) (pipeline_ID q) = Inr jobs \<longrightarrow>
             (\<forall>job\<in>set jobs. job_Name job = ciJobName g \<longrightarrow> job_FinishedAt job \<noteq> None))
          \<longrightarrow> getLastRunTime w g \<noteq> Panic)
       \<and> (getLastRunTime w g = Panic \<longleftrightarrow>
           (\<exists>pre p post js1 job js2. pipelineInfos = pre @ p # post \<and>
             (\<forall>q\<in>set pre. \<exists>js. ListPipelineJobs w git (ciProjectID g) (pipeline_ID q) = Inr js \<and>
                 (\<forall>j\<in>set js. job_Name j \<noteq> ciJobName g)) \<and>
             ListPipelineJobs w git (ciProjectID g) (pipeline_ID p) = Inr (js1 @ job # js2) \<and>
             (\<forall>j\<in>set js1. job_Name j \<noteq> ciJobName g) \<and>
             job_Name job = ciJobName g \<and> job_FinishedAt job = None))"
proof (intro conjI impI iffI)
  assume "\<forall>q\<in>set pipelineInfos. \<forall>jobs.
             ListPipelineJobs w git (ciProjectID g) (pipeline_ID q) = Inr jobs \<longrightarrow>
             (\<forall>job\<in>set jobs. job_Name job = ciJobName g \<longrightarrow> job_FinishedAt job \<noteq> None)"
  then have "pipelines_loop w g git pipelineInfos \<noteq> Panic"
    by (rule pipelines_loop_not_Panic)
  with assms show "getLastRunTime w g \<noteq> Panic"
    by (simp add: getLastRunTime_def)
next
  assume "getLastRunTime w g = Panic"
  with assms have "pipelines_loop w g git pipelineInfos = Panic"
    by (simp add: getLastRunTime_def)
  then show "\<exists>pre p post js1 job js2. pipelineInfos = pre @ p # post \<and>
             (\<forall>q\<in>set pre. \<exists>js. ListPipelineJobs w git (ciProjectID g) (pipeline_ID q) = Inr js \<and>
                 (\<forall>j\<in>set js. job_Name j \<noteq> ciJobName g)) \<and>
             ListPipelineJobs w git (ciProjectID g) (pipeline_ID p) = Inr (js1 @ job # js2) \<and>
             (\<forall>j\<in>set js1. job_Name j \<noteq> ciJobName g) \<and>
             job_Name job = ciJobName g \<and> job_FinishedAt job = None"
    by (rule pipelines_loop_Panic_D)
next
  assume "\<exists>pre p post js1 job js2. pipelineInfos = pre @ p # post \<and>
             (\<forall>q\<in>set pre. \<exists>js. ListPipelineJobs w git (ciProjectID g) (pipeline_ID q) = Inr js \<and>
                 (\<forall>j\<in>set js. job_Name j \<noteq> ciJobName g)) \<and>
             ListPipelineJobs w git (ciProjectID g) (pipeline_ID p) = Inr (js1 @ job # js2) \<and>
             (\<forall>j\<in>set js1. job_Name j \<noteq> ciJobName g) \<and>
             job_Name job = ciJobName g \<and> job_FinishedAt job = None"
  then obtain pre p post js1 job js2 where h: "pipelineInfos = pre @ p # post"
     "\<forall>q\<in>set pre. \<exists>js. ListPipelineJobs w git (ciProjectID g) (pipeline_ID q) = Inr js \<and>
                 (\<forall>j\<in>set js. job_Name j \<noteq> ciJobName g)"
     "ListPipelineJobs w git (ciProjectID g) (pipeline_ID p) = Inr (js1 @ job # js2)"
     "\<forall>j\<in>set js1. job_Name j \<noteq> ciJobName g"
     "job_Name job = ciJobName g" "job_FinishedAt job = None"
    by blast
  from h(2-5) have "pipelines_loop w g git (pre @ p # post) =
     (case job_FinishedAt job of None \<Rightarrow> Panic | Some t \<Rightarrow> Return (t, None))"
    by (rule pipelines_loop_first_match)
  with h(1,6) assms show "getLastRunTime w g = Panic"
    by (simp add: getLastRunTime_def)
qed

theorem getLastRunTime_Panic_precondition_witness:
  "getLastRunTime example_world (example_globals\<lparr>ciJobName := ''build''\<rparr>) \<noteq> Panic \<and>
   getLastRunTime example_world (example_globals\<lparr>ciJobName := ''deploy''\<rparr>) = Panic"
proof
  let ?git = "Client ''secret'' ''https://gitlab.example.com/api/v4''"
  let ?g = "example_globals\<lparr>ciJobName := ''build''\<rparr>"
  have c: "gitlab_NewClient example_world (gitlabAPIToken ?g) (ciAPIV4URL ?g) = Inr ?git"
    by (simp add: example_globals_def)
  have l: "ListProjectPipelines example_world ?git (ciProjectID ?g) pipelines_options =
      Inr example_pipelines"
    by (simp add: example_globals_def)
  have "\<forall>q\<in>set example_pipelines. \<forall>jobs.
          ListPipelineJobs example_world ?git (ciProjectID ?g) (pipeline_ID q) = Inr jobs \<longrightarrow>
          (\<forall>job\<in>set jobs. job_Name job = ciJobName ?g \<longrightarrow> job_FinishedAt job \<noteq> None)"
    by (simp add: example_pipelines_def example_jobs_def)
  with getLastRunTime_Panic_precondition [OF c l]
  show "getLastRunTime example_world ?g \<noteq> Panic"
    by blast
next
  let ?git = "Client ''secret'' ''https://gitlab.example.com/api/v4''"
  let ?g = "example_globals\<lparr>ciJobName := ''deploy''\<rparr>"
  let ?build = "\<lparr>job_Name = ''build'', job_Status = ''success'',
                 job_FinishedAt = Some (time_Unix 100000 0)\<rparr>"
  let ?deploy = "\<lparr>job_Name = ''deploy'', job_Status = ''manual'', job_FinishedAt = None\<rparr>"
  let ?p = "\<lparr>pipeline_ID = 7, pipeline_Status = ''success'',
       pipeline_UpdatedAt = Some (time_Unix 100100 0)\<rparr>"
  let ?post = "[\<lparr>pipeline_ID = 5, pipeline_Status = ''success'',
       pipeline_UpdatedAt = Some (time_Unix 90100 0)\<rparr>,
                \<lparr>pipeline_ID = 3, pipeline_Status = ''success'',
       pipeline_UpdatedAt = Some (time_Unix 3700 0)\<rparr>]"
  have c: "gitlab_NewClient example_world (gitlabAPIToken ?g) (ciAPIV4URL ?g) = Inr ?git"
    by (simp add: example_globals_def)
  have l: "ListProjectPipelines example_world ?git (ciProjectID ?g) pipelines_options =
      Inr example_pipelines"
    by (simp add: example_globals_def)
  have "example_pipelines = [] @ ?p # ?post \<and>
        (\<forall>q\<in>set []. \<exists>js. ListPipelineJobs example_world ?git (ciProjectID ?g)
                          (pipeline_ID q) = Inr js \<and>
              (\<forall>j\<in>set js. job_Name j \<noteq> ciJobName ?g)) \<and>
        ListPipelineJobs example_world ?git (ciProjectID ?g) (pipeline_ID ?p) =
          Inr ([?build] @ ?deploy # []) \<and>
        (\<forall>j\<in>set [?build]. job_Name j \<noteq> ciJobName ?g) \<and>
        job_Name ?deploy = ciJobName ?g \<and> job_FinishedAt ?deploy = None"
    by (simp add: example_pipelines_def example_jobs_def)
  then have "\<exists>pre p post js1 job js2. example_pipelines = pre @ p # post \<and>
        (\<forall>q\<in>set pre. \<exists>js. ListPipelineJobs example_world ?git (ciProjectID ?g)
                          (pipeline_ID q) = Inr js \<and>
              (\<forall>j\<in>set js. job_Name j \<noteq> ciJobName ?g)) \<and>
        ListPipelineJobs example_world ?git (ciProjectID ?g) (pipeline_ID p) =
          Inr (js1 @ job # js2) \<and>
        (\<forall>j\<in>set js1. job_Name j \<noteq> ciJobName ?g) \<and>
        job_Name job = ciJobName ?g \<and> job_FinishedAt job = None"
    by (intro exI)
  with getLastRunTime_Panic_precondition [OF c l]
  show "getLastRunTime example_world ?g = Panic"
    by simp
qed

end
